theory Spec2Isabelle
  imports Main
begin

section \<open>Data model of the GNTP client (gntp.go)\<close>

text \<open>
  Go strings and byte slices are sequences of bytes; both are modelled as \<open>string\<close>
  (a list of 8-bit characters), so that \<open>[]byte(packet)\<close> is the identity.
  Go's \<open>int\<close> is modelled as \<open>int\<close>: the client only compares and prints integers.
\<close>

definition CRLF :: string where
  "CRLF = [CHR 0x0D, CHR 0x0A]"

definition GNTPVersion :: string where
  "GNTPVersion = ''1.0''"

definition DefaultPort :: int where
  "DefaultPort = 23053"

text \<open>\<open>type IconMode int\<close> with the constants numbered by \<open>iota\<close>.\<close>

type_synonym IconMode = int

definition IconModeBinary :: IconMode where "IconModeBinary = 0"
definition IconModeFileURL :: IconMode where "IconModeFileURL = 1"
definition IconModeDataURL :: IconMode where "IconModeDataURL = 2"
definition IconModeHttpURL :: IconMode where "IconModeHttpURL = 3"
definition IconModeAuto :: IconMode where "IconModeAuto = 4"

record Resource =
  Identifier :: string
  Data :: string
  SourcePath :: string
  MimeType :: string

text \<open>A \<open>*Resource\<close> that may be \<open>nil\<close> is a \<open>Resource option\<close>.\<close>

record NotificationType =
  nt_Name :: string
  nt_DisplayName :: string
  nt_Enabled :: bool
  nt_Icon :: "Resource option"

record NotifyOptions =
  Sticky :: bool
  Priority :: int
  Icon :: "Resource option"
  CallbackContext :: string
  CallbackTarget :: string

record Message =
  msg_Event :: string
  msg_Title :: string
  msg_Text :: string
  msg_Icon :: string
  msg_Callback :: string
  msg_DisplayName :: string
  msg_Sticky :: bool
  msg_Priority :: int

record CallbackInfo =
  ci_Type :: string
  ci_NotificationID :: string
  ci_Context :: string
  ci_ContextType :: string
  ci_Timestamp :: int

text \<open>
  The client. \<open>callbackHandler\<close> records whether the handler is non-nil (calling it is
  an event of the callback trace below); \<open>callbackListener\<close> is the port the listener is
  bound to, if any. \<open>Timeout\<close> is a duration in nanoseconds; deadlines are not modelled.
\<close>

record Client =
  Host :: string
  Port :: int
  ApplicationName :: string
  ApplicationIcon :: "Resource option"
  IconMode :: IconMode
  Debug :: bool
  Timeout :: int
  registered :: bool
  callbackListener :: "int option"
  callbackHandler :: bool
  callbackURL :: string

text \<open>
  Every error of the client is built by \<open>fmt.Errorf\<close>; the constructor names the call
  site's kind and carries the whole message.
\<close>

datatype error =
    UsageError string
  | ConnectError string
  | WriteError string
  | ReadError string
  | ServerError string
  | ResourceError string
  | ListenError string

fun Error :: "error \<Rightarrow> string" where
  "Error (UsageError m) = m"
| "Error (ConnectError m) = m"
| "Error (WriteError m) = m"
| "Error (ReadError m) = m"
| "Error (ServerError m) = m"
| "Error (ResourceError m) = m"
| "Error (ListenError m) = m"

section \<open>Strings (Go's strings and fmt packages, as the client uses them)\<close>

definition HasPrefix :: "string \<Rightarrow> string \<Rightarrow> bool" where
  "HasPrefix s p = (length s \<ge> length p \<and> take (length p) s = p)"

definition TrimPrefix :: "string \<Rightarrow> string \<Rightarrow> string" where
  "TrimPrefix s p = (if HasPrefix s p then drop (length p) s else s)"

fun Contains :: "string \<Rightarrow> string \<Rightarrow> bool" where
  "Contains [] substr = (substr = [])"
| "Contains (c # s) substr = (HasPrefix (c # s) substr \<or> Contains s substr)"

text \<open>
  \<open>strings.ReplaceAll\<close> and \<open>strings.Split\<close>, scanning from the left for occurrences
  that do not overlap. The client calls them with a non-empty \<open>old\<close> and \<open>sep\<close> only
  (Go's behaviour for an empty one, cutting between characters, is not modelled: an
  empty \<open>old\<close> or \<open>sep\<close> leaves the string whole here).
\<close>

function ReplaceAll :: "string \<Rightarrow> string \<Rightarrow> string \<Rightarrow> string" where
  "ReplaceAll s old new =
     (if s = [] \<or> old = [] then s
      else if HasPrefix s old then new @ ReplaceAll (drop (length old) s) old new
      else hd s # ReplaceAll (tl s) old new)"
  by pat_completeness auto
termination
  by (relation "measure (\<lambda>(s, old, new). length s)") auto

function Split :: "string \<Rightarrow> string \<Rightarrow> string list" where
  "Split s sep =
     (if s = [] \<or> sep = [] then [s]
      else if HasPrefix s sep then [] # Split (drop (length sep) s) sep
      else (case Split (tl s) sep of
              [] \<Rightarrow> [[hd s]]
            | l # ls \<Rightarrow> (hd s # l) # ls))"
  by pat_completeness auto
termination
  by (relation "measure (\<lambda>(s, sep). length s)") auto

text \<open>
  \<open>strings.TrimSpace(line) == ""\<close>: the line is made of Unicode white space only.
  \<open>spaceRune\<close> is the length in bytes of the white-space character the string starts
  with in UTF-8, and 0 if it starts with none: the six ASCII ones, U+0085, U+00A0,
  U+1680, U+2000 to U+200A, U+2028, U+2029, U+202F, U+205F and U+3000.
\<close>

definition spaceRune :: "string \<Rightarrow> nat" where
  "spaceRune s =
     (let b = map of_char (take 3 s) :: nat list
      in if b = [] then 0
         else if hd b = 9 \<or> hd b = 10 \<or> hd b = 11 \<or> hd b = 12 \<or> hd b = 13 \<or> hd b = 32 then 1
         else if take 2 b = [194, 133] \<or> take 2 b = [194, 160] then 2
         else if b = [225, 154, 128] then 3
         else if length b = 3 \<and> take 2 b = [226, 128] \<and>
                 (128 \<le> b ! 2 \<and> b ! 2 \<le> 138 \<or> b ! 2 = 168 \<or> b ! 2 = 169 \<or> b ! 2 = 175)
              then 3
         else if b = [226, 129, 159] then 3
         else if b = [227, 128, 128] then 3
         else 0)"

function blankLine :: "string \<Rightarrow> bool" where
  "blankLine s =
     (if s = [] then True
      else if spaceRune s = 0 then False
      else blankLine (drop (spaceRune s) s))"
  by pat_completeness auto
termination
  by (relation "measure length") auto

text \<open>The verb \<open>%d\<close> of \<open>fmt.Sprintf\<close>.\<close>

function itoa :: "nat \<Rightarrow> string" where
  "itoa n = (if n < 10 then [char_of (48 + n)] else itoa (n div 10) @ [char_of (48 + n mod 10)])"
  by pat_completeness auto
termination
  by (relation "measure id") auto

definition Sprintf_d :: "int \<Rightarrow> string" where
  "Sprintf_d i = (if i < 0 then CHR ''-'' # itoa (nat (- i)) else itoa (nat i))"

section \<open>Base64 (Go's encoding/base64, StdEncoding)\<close>

text \<open>
  The standard library's encoder: three bytes give four characters of the alphabet
  \<open>encodeStd\<close>, a last group of one or two bytes is padded with \<open>=\<close>.
  \<open>DecodeString\<close> is the strict decoder of the same encoding (no line breaks accepted),
  against which the round trip is stated.
\<close>

definition encodeStd :: string where
  "encodeStd = ''ABCDEFGHIJKLMNOPQRSTUVWXYZabcdefghijklmnopqrstuvwxyz0123456789+/''"

fun EncodeToString :: "string \<Rightarrow> string" where
  "EncodeToString (a # b # c # src) =
     (let val = (of_char a :: nat) * 65536 + of_char b * 256 + of_char c
      in encodeStd ! (val div 262144 mod 64) # encodeStd ! (val div 4096 mod 64) #
         encodeStd ! (val div 64 mod 64) # encodeStd ! (val mod 64) # EncodeToString src)"
| "EncodeToString [a, b] =
     (let val = (of_char a :: nat) * 65536 + of_char b * 256
      in [encodeStd ! (val div 262144 mod 64), encodeStd ! (val div 4096 mod 64),
          encodeStd ! (val div 64 mod 64), CHR ''=''])"
| "EncodeToString [a] =
     (let val = (of_char a :: nat) * 65536
      in [encodeStd ! (val div 262144 mod 64), encodeStd ! (val div 4096 mod 64),
          CHR ''='', CHR ''=''])"
| "EncodeToString [] = []"



section \<open>Icon references\<close>

text \<open>
  The loop of \<open>toDataURL\<close> that breaks the base64 text every 76 characters:
  \<open>i\<close> is the loop variable, \<open>formatted\<close> the builder's content.
\<close>

function formatLoop :: "string \<Rightarrow> nat \<Rightarrow> string \<Rightarrow> string" where
  "formatLoop encoded i formatted =
     (if i < length encoded then
        (let endi = (if i + 76 > length encoded then length encoded else i + 76);
             formatted1 = formatted @ take (endi - i) (drop i encoded);
             formatted2 = (if endi < length encoded then formatted1 @ CRLF else formatted1)
         in formatLoop encoded (i + 76) formatted2)
      else formatted)"
  by pat_completeness auto
termination
  by (relation "measure (\<lambda>(encoded, i, formatted). length encoded - i)") auto

definition toDataURL :: "Resource \<Rightarrow> string" where
  "toDataURL r =
     (let encoded = EncodeToString (Data r)
      in ''data:'' @ MimeType r @ '';base64,'' @ formatLoop encoded 0 [])"

definition getReference :: "Resource \<Rightarrow> IconMode \<Rightarrow> string" where
  "getReference r mode =
     (if mode = IconModeBinary then ''x-growl-resource://'' @ Identifier r
      else if mode = IconModeFileURL then
        (if SourcePath r \<noteq> [] then
           (let path = ReplaceAll (SourcePath r) [CHR 0x5C] ''/'' in ''file:///'' @ path)
         else toDataURL r)
      else if mode = IconModeHttpURL then
        (if SourcePath r \<noteq> [] then SourcePath r else toDataURL r)
      else toDataURL r)"

text \<open>
  The wording of the specification for the payload of a data URL: the base64 text cut
  into lines of 76 characters, joined by the line terminator.
\<close>

function lines76 :: "string \<Rightarrow> string list" where
  "lines76 s = (if s = [] then [] else take 76 s # lines76 (drop 76 s))"
  by pat_completeness auto
termination
  by (relation "measure length") auto

fun join_crlf :: "string list \<Rightarrow> string" where
  "join_crlf [] = []"
| "join_crlf [l] = l"
| "join_crlf (l # l' # ls) = l @ CRLF @ join_crlf (l' # ls)"

section \<open>The world outside the client\<close>

text \<open>
  One \<open>peer\<close> scripts what the daemon does on one connection: whether the dial is
  refused (with the error's text), which \<open>Write\<close> call fails, if any (counted from 0,
  with the error's text), the bytes it sends back, and how reading ends once they are
  consumed (\<open>io.EOF\<close>, or another error with the text of \<open>err.Error()\<close>; the deadline
  set on the connection makes every read return).
\<close>

datatype read_end = EOF | ReadFail string

record peer =
  refuses :: "string option"
  write_fails :: "(nat \<times> string) option"
  incoming :: string
  read_end :: read_end

text \<open>What the client does on the network, in order.\<close>

datatype io_event = Dial string | Write string | WriteFailed string | Close

text \<open>
  The world: the peers that answer the next dials, the trace of network events so far,
  the file system (\<open>os.ReadFile\<close>: the content, or the error's text), the clock
  (\<open>time.Now().UnixNano()\<close>), and the library functions the repository does not hold:
  the hexadecimal MD5 digest, \<open>uuid.New().String()\<close> as a numbered source of fresh
  identifiers, and \<open>strings.ToLower(filepath.Ext(path))\<close>.
\<close>

record world =
  peers :: "peer list"
  trace :: "io_event list"
  files :: "string \<Rightarrow> string + string"
  now :: int
  md5hex :: "string \<Rightarrow> string"
  uuid_source :: "nat \<Rightarrow> string"
  uuid_count :: nat
  lowerExt :: "string \<Rightarrow> string"

definition emit :: "io_event \<Rightarrow> world \<Rightarrow> world" where
  "emit e w = w\<lparr>trace := trace w @ [e]\<rparr>"

text \<open>
  \<open>net.DialTimeout\<close>: the next peer answers; with no peer left the dial fails.
\<close>

definition DialTimeout :: "string \<Rightarrow> world \<Rightarrow> (string + peer) \<times> world" where
  "DialTimeout address w =
     (case peers w of
        [] \<Rightarrow> (Inl ''connection refused'', emit (Dial address) w)
      | p # ps \<Rightarrow>
          (case refuses p of
             Some e \<Rightarrow> (Inl e, emit (Dial address) (w\<lparr>peers := ps\<rparr>))
           | None \<Rightarrow> (Inr p, emit (Dial address) (w\<lparr>peers := ps\<rparr>))))"

text \<open>\<open>conn.Write\<close>, the \<open>n\<close>-th write on the connection to peer \<open>p\<close>.\<close>

definition conn_Write :: "peer \<Rightarrow> nat \<Rightarrow> string \<Rightarrow> world \<Rightarrow> string option \<times> world" where
  "conn_Write p n b w =
     (case write_fails p of
        Some (k, e) \<Rightarrow> if k = n then (Some e, emit (WriteFailed b) w) else (None, emit (Write b) w)
      | None \<Rightarrow> (None, emit (Write b) w))"

text \<open>
  \<open>reader.ReadString('\n')\<close> on the bytes still to come: the line up to and including
  the first line feed and the rest, or nothing when no line feed is left (the call then
  returns the error that ends the reading, and the client drops the bytes it got).
\<close>

definition ReadString :: "string \<Rightarrow> (string \<times> string) option" where
  "ReadString inp =
     (if CHR 0x0A \<in> set inp
      then Some (takeWhile (\<lambda>c. c \<noteq> CHR 0x0A) inp @ [CHR 0x0A],
                 tl (dropWhile (\<lambda>c. c \<noteq> CHR 0x0A) inp))
      else None)"

lemma ReadString_shorter:
  assumes "ReadString inp = Some (line, rest)"
  shows "length rest < length inp"
proof -
  from assms have nl: "CHR 0x0A \<in> set inp"
    and rest: "rest = tl (dropWhile (\<lambda>c. c \<noteq> CHR 0x0A) inp)"
    by (auto simp: ReadString_def split: if_splits)
  from nl have "dropWhile (\<lambda>c. c \<noteq> CHR 0x0A) inp \<noteq> []"
    by (simp add: dropWhile_eq_Nil_conv)
  moreover have "length (dropWhile (\<lambda>c. c \<noteq> CHR 0x0A) inp) \<le> length inp"
    by (rule length_dropWhile_le)
  ultimately show ?thesis
    using rest by (cases "dropWhile (\<lambda>c. c \<noteq> CHR 0x0A) inp") auto
qed

section \<open>Transport (sendPacket, sendPacketWithResources)\<close>

text \<open>
  The loop that reads the response, the same in both functions: \<open>response\<close> is the
  builder's content. It ends at a blank line, at end of stream, at an error whose text
  contains \<open>connection\<close>, or fails on any other error.
\<close>

function readResponse :: "string \<Rightarrow> read_end \<Rightarrow> string \<Rightarrow> error + string" where
  "readResponse inp fin response =
     (case ReadString inp of
        None \<Rightarrow>
          (case fin of
             EOF \<Rightarrow> Inr response
           | ReadFail msg \<Rightarrow>
               if Contains msg ''connection'' then Inr response
               else Inl (ReadError (''failed to read response: '' @ msg)))
      | Some (line, rest) \<Rightarrow>
          (let response1 = response @ line
           in if blankLine line then Inr response1 else readResponse rest fin response1))"
  by pat_completeness auto
termination
  by (relation "measure (\<lambda>(inp, fin, response). length inp)")
     (auto dest: ReadString_shorter)

text \<open>
  Whether the bytes to come hold a blank line, read line by line as the loop does: then
  the loop ends there.
\<close>

function endsAtBlank :: "string \<Rightarrow> bool" where
  "endsAtBlank inp =
     (case ReadString inp of
        None \<Rightarrow> False
      | Some (line, rest) \<Rightarrow> if blankLine line then True else endsAtBlank rest)"
  by pat_completeness auto
termination
  by (relation "measure length") (auto dest: ReadString_shorter)

text \<open>The check of the response text that ends both functions.\<close>

definition checkResponse :: "string \<Rightarrow> error + string" where
  "checkResponse responseStr =
     (if Contains responseStr ''-ERROR''
      then Inl (ServerError (''server error: '' @ responseStr))
      else Inr responseStr)"

definition address_of :: "Client \<Rightarrow> string" where
  "address_of c = Host c @ '':'' @ Sprintf_d (Port c)"

text \<open>\<open>defer conn.Close()\<close> runs on every return after the dial.\<close>

definition sendPacket :: "Client \<Rightarrow> string \<Rightarrow> world \<Rightarrow> (error + string) \<times> world" where
  "sendPacket c packet w =
     (let address = address_of c
      in case DialTimeout address w of
           (Inl e, w1) \<Rightarrow>
             (Inl (ConnectError (''failed to connect to '' @ address @ '': '' @ e)), w1)
         | (Inr conn, w1) \<Rightarrow>
             (case conn_Write conn 0 packet w1 of
                (Some e, w2) \<Rightarrow>
                  (Inl (WriteError (''failed to send packet: '' @ e)), emit Close w2)
              | (None, w2) \<Rightarrow>
                  (case readResponse (incoming conn) (read_end conn) [] of
                     Inl e \<Rightarrow> (Inl e, emit Close w2)
                   | Inr responseStr \<Rightarrow> (checkResponse responseStr, emit Close w2))))"

text \<open>
  The loop over the resources: \<open>n\<close> counts the writes done on the connection. It stops
  at the first write that fails.
\<close>

fun writeResources :: "peer \<Rightarrow> nat \<Rightarrow> Resource list \<Rightarrow> world \<Rightarrow> error option \<times> nat \<times> world" where
  "writeResources conn n [] w = (None, n, w)"
| "writeResources conn n (res # rest) w =
     (case conn_Write conn n (Data res) w of
        (Some e, w1) \<Rightarrow> (Some (WriteError (''failed to send resource data: '' @ e)), n, w1)
      | (None, w1) \<Rightarrow>
          (case conn_Write conn (n + 1) CRLF w1 of
             (Some e, w2) \<Rightarrow>
               (Some (WriteError (''failed to send resource CRLF: '' @ e)), n + 1, w2)
           | (None, w2) \<Rightarrow> writeResources conn (n + 2) rest w2))"

definition sendPacketWithResources ::
    "Client \<Rightarrow> string \<Rightarrow> Resource list \<Rightarrow> world \<Rightarrow> (error + string) \<times> world" where
  "sendPacketWithResources c packet resources w =
     (let address = address_of c
      in case DialTimeout address w of
           (Inl e, w1) \<Rightarrow>
             (Inl (ConnectError (''failed to connect to '' @ address @ '': '' @ e)), w1)
         | (Inr conn, w1) \<Rightarrow>
             (case conn_Write conn 0 packet w1 of
                (Some e, w2) \<Rightarrow>
                  (Inl (WriteError (''failed to send packet: '' @ e)), emit Close w2)
              | (None, w2) \<Rightarrow>
                  (case writeResources conn 1 resources w2 of
                     (Some err, n, w3) \<Rightarrow> (Inl err, emit Close w3)
                   | (None, n, w3) \<Rightarrow>
                       (case conn_Write conn n CRLF w3 of
                          (Some e, w4) \<Rightarrow>
                            (Inl (WriteError (''failed to send termination: '' @ e)),
                             emit Close w4)
                        | (None, w4) \<Rightarrow>
                            (case readResponse (incoming conn) (read_end conn) [] of
                               Inl e \<Rightarrow> (Inl e, emit Close w4)
                             | Inr responseStr \<Rightarrow>
                                 (checkResponse responseStr, emit Close w4))))))"

section \<open>Notification options\<close>

definition NewNotifyOptions :: NotifyOptions where
  "NewNotifyOptions =
     \<lparr>Sticky = False, Priority = 0, Icon = None, CallbackContext = [], CallbackTarget = []\<rparr>"

definition WithSticky :: "NotifyOptions \<Rightarrow> bool \<Rightarrow> NotifyOptions" where
  "WithSticky no sticky = no\<lparr>Sticky := sticky\<rparr>"

text \<open>
  \<open>WithPriority\<close> has no error result: it returns the options, with the priority
  brought into the range from -2 to 2.
\<close>

definition WithPriority :: "NotifyOptions \<Rightarrow> int \<Rightarrow> NotifyOptions" where
  "WithPriority no priority =
     (let priority = (if priority < -2 then -2 else if priority > 2 then 2 else priority)
      in no\<lparr>Priority := priority\<rparr>)"

definition no_WithIcon :: "NotifyOptions \<Rightarrow> Resource option \<Rightarrow> NotifyOptions" where
  "no_WithIcon no icon = no\<lparr>Icon := icon\<rparr>"

definition WithCallbackContext :: "NotifyOptions \<Rightarrow> string \<Rightarrow> NotifyOptions" where
  "WithCallbackContext no context = no\<lparr>CallbackContext := context\<rparr>"

definition WithCallbackTarget :: "NotifyOptions \<Rightarrow> string \<Rightarrow> NotifyOptions" where
  "WithCallbackTarget no target = no\<lparr>CallbackTarget := target\<rparr>"

section \<open>Client and notification types\<close>

definition NewClient :: "string \<Rightarrow> Client" where
  "NewClient applicationName =
     \<lparr>Host = ''localhost'', Port = DefaultPort, ApplicationName = applicationName,
      ApplicationIcon = None, IconMode = IconModeDataURL, Debug = False,
      Timeout = 10 * 1000000000, registered = False, callbackListener = None,
      callbackHandler = False, callbackURL = []\<rparr>"

definition NewNotificationType :: "string \<Rightarrow> NotificationType" where
  "NewNotificationType name =
     \<lparr>nt_Name = name, nt_DisplayName = [], nt_Enabled = True, nt_Icon = None\<rparr>"

definition WithDisplayName :: "NotificationType \<Rightarrow> string \<Rightarrow> NotificationType" where
  "WithDisplayName nt displayName = nt\<lparr>nt_DisplayName := displayName\<rparr>"

definition nt_WithIcon :: "NotificationType \<Rightarrow> Resource option \<Rightarrow> NotificationType" where
  "nt_WithIcon nt icon = nt\<lparr>nt_Icon := icon\<rparr>"

definition WithEnabled :: "NotificationType \<Rightarrow> bool \<Rightarrow> NotificationType" where
  "WithEnabled nt enabled = nt\<lparr>nt_Enabled := enabled\<rparr>"

section \<open>Loading an icon\<close>

text \<open>
  \<open>guessMimeType\<close>, given the lower-cased extension of the path
  (\<open>strings.ToLower(filepath.Ext(path))\<close>, which depends on the operating system's
  path separator and is taken from the world).
\<close>

definition guessMimeType :: "(string \<Rightarrow> string) \<Rightarrow> string \<Rightarrow> string" where
  "guessMimeType lower_ext path =
     (let ext = lower_ext path
      in if ext = ''.png'' then ''image/png''
         else if ext = ''.jpg'' \<or> ext = ''.jpeg'' then ''image/jpeg''
         else if ext = ''.gif'' then ''image/gif''
         else if ext = ''.bmp'' then ''image/bmp''
         else if ext = ''.ico'' then ''image/x-icon''
         else if ext = ''.svg'' then ''image/svg+xml''
         else if ext = ''.webp'' then ''image/webp''
         else ''application/octet-stream'')"

definition LoadResource :: "string \<Rightarrow> world \<Rightarrow> (error + Resource) \<times> world" where
  "LoadResource path w =
     (case files w path of
        Inl e \<Rightarrow> (Inl (ResourceError (''failed to read file: '' @ e)), w)
      | Inr content \<Rightarrow>
          (Inr \<lparr>Identifier = uuid_source w (uuid_count w), Data = content,
                SourcePath = path, MimeType = guessMimeType (lowerExt w) path\<rparr>,
           w\<lparr>uuid_count := Suc (uuid_count w)\<rparr>))"

section \<open>Packet encoder\<close>

text \<open>
  The local variables of \<open>Register\<close> while it builds the packet: the string builder's
  content, the resources to send after the header block, and the map of identifiers
  seen (a Go map read at a missing key gives \<open>false\<close>). \<open>NotifyWithOptions\<close> has the
  first two only.
\<close>

record builder =
  packet :: string
  resources :: "Resource list"
  seenIDs :: "string \<Rightarrow> bool"

definition WriteString :: "builder \<Rightarrow> string \<Rightarrow> builder" where
  "WriteString b s = b\<lparr>packet := packet b @ s\<rparr>"

text \<open>Lines 20 to 40 of \<open>Register\<close>: the request line up to the blank line.\<close>

definition registerPreamble :: "Client \<Rightarrow> NotificationType list \<Rightarrow> builder" where
  "registerPreamble c notifications =
     (let b = \<lparr>packet = [], resources = [], seenIDs = (\<lambda>id. False)\<rparr>;
          b = WriteString b (''GNTP/'' @ GNTPVersion @ '' REGISTER NONE'' @ CRLF);
          b = WriteString b (''Application-Name: '' @ ApplicationName c @ CRLF);
          b = (case ApplicationIcon c of
                 None \<Rightarrow> b
               | Some icon \<Rightarrow>
                   (let iconRef = getReference icon (IconMode c);
                        b = WriteString b (''Application-Icon: '' @ iconRef @ CRLF)
                    in if IconMode c = IconModeBinary \<and> \<not> seenIDs b (Identifier icon)
                       then b\<lparr>resources := resources b @ [icon],
                              seenIDs := (seenIDs b)(Identifier icon := True)\<rparr>
                       else b));
          b = (if callbackURL c \<noteq> []
               then WriteString b (''Notification-Callback-Target: '' @ callbackURL c @ CRLF)
               else b);
          b = WriteString b
                (''Notifications-Count: '' @ Sprintf_d (int (length notifications)) @ CRLF)
      in WriteString b CRLF)"

text \<open>The body of the loop over the notification types (lines 44 to 66).\<close>

definition registerNotification :: "Client \<Rightarrow> builder \<Rightarrow> NotificationType \<Rightarrow> builder" where
  "registerNotification c b notif =
     (let b = WriteString b (''Notification-Name: '' @ nt_Name notif @ CRLF);
          b = (if nt_DisplayName notif \<noteq> []
               then WriteString b (''Notification-Display-Name: '' @ nt_DisplayName notif @ CRLF)
               else b);
          enabled = (if nt_Enabled notif then ''True'' else ''False'');
          b = WriteString b (''Notification-Enabled: '' @ enabled @ CRLF);
          b = (case nt_Icon notif of
                 None \<Rightarrow> b
               | Some icon \<Rightarrow>
                   (let iconRef = getReference icon (IconMode c);
                        b = WriteString b (''Notification-Icon: '' @ iconRef @ CRLF)
                    in if IconMode c = IconModeBinary \<and> \<not> seenIDs b (Identifier icon)
                       then b\<lparr>resources := resources b @ [icon],
                              seenIDs := (seenIDs b)(Identifier icon := True)\<rparr>
                       else b))
      in WriteString b CRLF)"

text \<open>
  The body of the loop that declares the binary resources, the same in \<open>Register\<close>
  and \<open>NotifyWithOptions\<close>, and the loop itself, run in Binary mode only.
\<close>

definition resourceHeader :: "builder \<Rightarrow> Resource \<Rightarrow> builder" where
  "resourceHeader b res =
     (let b = WriteString b (''Identifier: '' @ Identifier res @ CRLF);
          b = WriteString b (''Length: '' @ Sprintf_d (int (length (Data res))) @ CRLF)
      in WriteString b CRLF)"

definition binaryResources :: "Client \<Rightarrow> builder \<Rightarrow> builder" where
  "binaryResources c b =
     (if IconMode c = IconModeBinary then foldl resourceHeader b (resources b) else b)"

definition registerPacket :: "Client \<Rightarrow> NotificationType list \<Rightarrow> builder" where
  "registerPacket c notifications =
     binaryResources c (foldl (registerNotification c) (registerPreamble c notifications) notifications)"

text \<open>
  \<open>Register\<close>: the error (\<open>None\<close> for \<open>nil\<close>), the client and the world afterwards.
  The debug output goes to the standard output and is not modelled.
\<close>

definition Register ::
    "Client \<Rightarrow> NotificationType list \<Rightarrow> world \<Rightarrow> error option \<times> Client \<times> world" where
  "Register c notifications w =
     (let b = registerPacket c notifications;
          (r, w1) = (if IconMode c = IconModeBinary
                     then sendPacketWithResources c (packet b) (resources b) w
                     else sendPacket c (packet b) w)
      in case r of
           Inl err \<Rightarrow> (Some err, c, w1)
         | Inr response \<Rightarrow> (None, c\<lparr>registered := True\<rparr>, w1))"

text \<open>
  The NOTIFY packet, given the notification identifier (the MD5 digest computed by
  \<open>NotifyWithOptions\<close>).
\<close>

definition notifyPacket ::
    "Client \<Rightarrow> string \<Rightarrow> string \<Rightarrow> string \<Rightarrow> NotifyOptions \<Rightarrow> string \<Rightarrow> builder" where
  "notifyPacket c notificationName title text options notificationID =
     (let b = \<lparr>packet = [], resources = [], seenIDs = (\<lambda>id. False)\<rparr>;
          b = WriteString b (''GNTP/'' @ GNTPVersion @ '' NOTIFY NONE'' @ CRLF);
          b = WriteString b (''Application-Name: '' @ ApplicationName c @ CRLF);
          b = WriteString b (''Notification-Name: '' @ notificationName @ CRLF);
          b = WriteString b (''Notification-ID: '' @ notificationID @ CRLF);
          b = WriteString b (''Notification-Title: '' @ title @ CRLF);
          b = WriteString b (''Notification-Text: '' @ text @ CRLF);
          b = (if Sticky options then WriteString b (''Notification-Sticky: True'' @ CRLF) else b);
          b = (if Priority options \<noteq> 0
               then WriteString b (''Notification-Priority: '' @ Sprintf_d (Priority options) @ CRLF)
               else b);
          b = (case Icon options of
                 None \<Rightarrow> b
               | Some icon \<Rightarrow>
                   (let iconRef = getReference icon (IconMode c);
                        b = WriteString b (''Notification-Icon: '' @ iconRef @ CRLF)
                    in if IconMode c = IconModeBinary
                       then b\<lparr>resources := resources b @ [icon]\<rparr>
                       else b));
          b = (if callbackURL c \<noteq> []
               then (let b = WriteString b
                               (''Notification-Callback-Context: '' @ CallbackContext options @ CRLF);
                         b = WriteString b (''Notification-Callback-Context-Type: string'' @ CRLF)
                     in if CallbackTarget options \<noteq> []
                        then WriteString b
                               (''Notification-Callback-Target: '' @ CallbackTarget options @ CRLF)
                        else b)
               else b);
          b = WriteString b CRLF
      in binaryResources c b)"

definition NotifyWithOptions ::
    "Client \<Rightarrow> string \<Rightarrow> string \<Rightarrow> string \<Rightarrow> NotifyOptions \<Rightarrow> world \<Rightarrow> error option \<times> world" where
  "NotifyWithOptions c notificationName title text options w =
     (if \<not> registered c then (Some (UsageError ''must call Register() before Notify()''), w)
      else
        (let notificationID =
               md5hex w (ApplicationName c @ '':'' @ notificationName @ '':'' @ Sprintf_d (now w));
             b = notifyPacket c notificationName title text options notificationID;
             (r, w1) = (if IconMode c = IconModeBinary
                        then sendPacketWithResources c (packet b) (resources b) w
                        else sendPacket c (packet b) w)
         in case r of Inl err \<Rightarrow> (Some err, w1) | Inr response \<Rightarrow> (None, w1)))"

definition Notify :: "Client \<Rightarrow> string \<Rightarrow> string \<Rightarrow> string \<Rightarrow> world \<Rightarrow> error option \<times> world" where
  "Notify c notificationName title text w =
     NotifyWithOptions c notificationName title text NewNotifyOptions w"

definition SendMessage :: "Client \<Rightarrow> Message \<Rightarrow> world \<Rightarrow> error option \<times> Client \<times> world" where
  "SendMessage c msg w =
     (case (if msg_Icon msg \<noteq> []
            then (case LoadResource (msg_Icon msg) w of
                    (Inl err, w1) \<Rightarrow>
                      (Inl (ResourceError (''failed to load icon: '' @ Error err)), w1)
                  | (Inr res, w1) \<Rightarrow> (Inr (Some res), w1))
            else (Inr None, w)) of
        (Inl err, w1) \<Rightarrow> (Some err, c, w1)
      | (Inr icon, w1) \<Rightarrow>
          (case (if \<not> registered c
                 then (let displayName = (if msg_DisplayName msg = [] then msg_Event msg
                                          else msg_DisplayName msg);
                           notif = nt_WithIcon
                                     (WithDisplayName (NewNotificationType (msg_Event msg)) displayName)
                                     icon
                       in Register c [notif] w1)
                 else (None, c, w1)) of
             (Some err, c1, w2) \<Rightarrow> (Some err, c1, w2)
           | (None, c1, w2) \<Rightarrow>
               (let options = WithPriority (WithSticky NewNotifyOptions (msg_Sticky msg))
                                (msg_Priority msg);
                    options = (if icon \<noteq> None then no_WithIcon options icon else options);
                    options = (if msg_Callback msg \<noteq> []
                               then WithCallbackTarget options (msg_Callback msg) else options);
                    (err, w3) = NotifyWithOptions c1 (msg_Event msg) (msg_Title msg)
                                  (msg_Text msg) options w2
                in (err, c1, w3))))"

section \<open>Callback listener\<close>

text \<open>
  What happens on one inbound connection, in order: bytes written to it, the handler
  called with the information parsed, the connection closed (\<open>defer conn.Close()\<close>).
\<close>

datatype cb_event = CbWrite string | CbHandler CallbackInfo | CbClose

text \<open>The body of the loop over the lines of the callback message.\<close>

definition parseLine :: "CallbackInfo \<Rightarrow> string \<Rightarrow> CallbackInfo" where
  "parseLine info line =
     (if HasPrefix line ''Notification-Callback-Result: ''
      then info\<lparr>ci_Type := TrimPrefix line ''Notification-Callback-Result: ''\<rparr>
      else if HasPrefix line ''Notification-ID: ''
      then info\<lparr>ci_NotificationID := TrimPrefix line ''Notification-ID: ''\<rparr>
      else if HasPrefix line ''Notification-Callback-Context: ''
      then info\<lparr>ci_Context := TrimPrefix line ''Notification-Callback-Context: ''\<rparr>
      else if HasPrefix line ''Notification-Callback-Context-Type: ''
      then info\<lparr>ci_ContextType := TrimPrefix line ''Notification-Callback-Context-Type: ''\<rparr>
      else info)"

text \<open>
  The value of a header in a list of lines: what follows \<open>name\<close> on the last line
  that starts with it, and the empty string when no line does.
\<close>

definition fieldOf :: "string \<Rightarrow> string list \<Rightarrow> string" where
  "fieldOf name ls =
     (let matching = filter (\<lambda>l. HasPrefix l name) ls
      in if matching = [] then [] else drop (length name) (last matching))"

text \<open>A line that starts with one of the four header names the listener looks for.\<close>

definition recognised :: "string \<Rightarrow> bool" where
  "recognised line \<longleftrightarrow>
     HasPrefix line ''Notification-Callback-Result: '' \<or>
     HasPrefix line ''Notification-ID: '' \<or>
     HasPrefix line ''Notification-Callback-Context: '' \<or>
     HasPrefix line ''Notification-Callback-Context-Type: ''"

text \<open>
  \<open>handleCallback\<close> on a connection whose single \<open>Read\<close> into the buffer of 4096
  bytes fails (\<open>Inl\<close>, the error's text) or returns the bytes available, at time \<open>t\<close>.
  The result of the write of the acknowledgement is not looked at by the code.
\<close>

definition handleCallback :: "Client \<Rightarrow> int \<Rightarrow> string + string \<Rightarrow> cb_event list" where
  "handleCallback c t rd =
     (case rd of
        Inl err \<Rightarrow> [CbClose]
      | Inr bytes \<Rightarrow>
          (let response = take 4096 bytes;
               lines = Split response CRLF;
               info = foldl parseLine
                        \<lparr>ci_Type = [], ci_NotificationID = [], ci_Context = [],
                         ci_ContextType = [], ci_Timestamp = t\<rparr> lines
           in [CbWrite (''GNTP/'' @ GNTPVersion @ '' -OK NONE'' @ CRLF @ CRLF)] @
              (if callbackHandler c then [CbHandler info] else []) @ [CbClose]))"

text \<open>
  \<open>acceptCallbacks\<close>: each accepted connection is handled by a goroutine of its own;
  the loop returns at the first error of \<open>Accept\<close>. An accepted connection comes with
  the time at which its goroutine reads the clock and with the result of its read. The
  result lists, connection by connection, what the handling goroutine does; the
  goroutines share no state, and the order in which they run is not modelled.
\<close>

datatype accepted = Accepted int "string + string" | AcceptError

fun acceptCallbacks :: "Client \<Rightarrow> accepted list \<Rightarrow> cb_event list list" where
  "acceptCallbacks c [] = []"
| "acceptCallbacks c (AcceptError # rest) = []"
| "acceptCallbacks c (Accepted t rd # rest) = handleCallback c t rd # acceptCallbacks c rest"


section \<open>Header lines of a packet\<close>

text \<open>
  The lines of a packet are its pieces between CRLF line terminators, as the receiver
  cuts it; \<open>headerLines s name\<close> are those that start with \<open>name\<close>, in order.
\<close>

definition headerLines :: "string \<Rightarrow> string \<Rightarrow> string list" where
  "headerLines s name = filter (\<lambda>l. HasPrefix l name) (Split s CRLF)"

text \<open>
  A string is plain when it holds no CRLF, and a resource when its identifier, source
  path and MIME type are: such values stay within the header line that carries them.
\<close>

definition plain :: "string \<Rightarrow> bool" where
  "plain s \<longleftrightarrow> \<not> Contains s CRLF"

definition plainResource :: "Resource \<Rightarrow> bool" where
  "plainResource r \<longleftrightarrow> plain (Identifier r) \<and> plain (SourcePath r) \<and> plain (MimeType r)"

text \<open>
  The lines \<open>NotifyWithOptions\<close> writes, each without its CRLF, in the order of the
  \<open>WriteString\<close> calls (an icon reference that is a wrapped data URL is one entry).
  The packet is shown below to be these entries, each followed by CRLF.
\<close>

definition notifyLines ::
    "Client \<Rightarrow> string \<Rightarrow> string \<Rightarrow> string \<Rightarrow> NotifyOptions \<Rightarrow> string \<Rightarrow> string list" where
  "notifyLines c notificationName title text options notificationID =
     [''GNTP/'' @ GNTPVersion @ '' NOTIFY NONE'',
      ''Application-Name: '' @ ApplicationName c,
      ''Notification-Name: '' @ notificationName,
      ''Notification-ID: '' @ notificationID,
      ''Notification-Title: '' @ title,
      ''Notification-Text: '' @ text] @
     (if Sticky options then [''Notification-Sticky: True''] else []) @
     (if Priority options \<noteq> 0
      then [''Notification-Priority: '' @ Sprintf_d (Priority options)] else []) @
     (case Icon options of
        None \<Rightarrow> []
      | Some icon \<Rightarrow> [''Notification-Icon: '' @ getReference icon (IconMode c)]) @
     (if callbackURL c \<noteq> []
      then [''Notification-Callback-Context: '' @ CallbackContext options,
            ''Notification-Callback-Context-Type: string''] @
           (if CallbackTarget options \<noteq> []
            then [''Notification-Callback-Target: '' @ CallbackTarget options] else [])
      else []) @
     [[]] @
     (if IconMode c = IconModeBinary
      then (case Icon options of
              None \<Rightarrow> []
            | Some icon \<Rightarrow>
                [''Identifier: '' @ Identifier icon,
                 ''Length: '' @ Sprintf_d (int (length (Data icon))), []])
      else [])"

text \<open>
  The icons a registration refers to, in the order \<open>Register\<close> meets them: the
  application icon, then the icon of each notification type.
\<close>

definition referencedIcons :: "Client \<Rightarrow> NotificationType list \<Rightarrow> Resource list" where
  "referencedIcons c notifications =
     (case ApplicationIcon c of None \<Rightarrow> [] | Some icon \<Rightarrow> [icon]) @
     concat (map (\<lambda>notif. case nt_Icon notif of None \<Rightarrow> [] | Some icon \<Rightarrow> [icon]) notifications)"

text \<open>
  The lines \<open>Register\<close> writes, each without its CRLF, in the order of the
  \<open>WriteString\<close> calls: the header block up to the blank line after
  \<open>Notifications-Count\<close>, the block of one notification type, and the block that
  announces one binary resource. The packet is shown below to be these entries, each
  followed by CRLF.
\<close>

definition preambleLines :: "Client \<Rightarrow> NotificationType list \<Rightarrow> string list" where
  "preambleLines c notifications =
     [''GNTP/'' @ GNTPVersion @ '' REGISTER NONE'',
      ''Application-Name: '' @ ApplicationName c] @
     (case ApplicationIcon c of
        None \<Rightarrow> []
      | Some icon \<Rightarrow> [''Application-Icon: '' @ getReference icon (IconMode c)]) @
     (if callbackURL c \<noteq> [] then [''Notification-Callback-Target: '' @ callbackURL c] else []) @
     [''Notifications-Count: '' @ Sprintf_d (int (length notifications)), []]"

definition notificationLines :: "Client \<Rightarrow> NotificationType \<Rightarrow> string list" where
  "notificationLines c notif =
     [''Notification-Name: '' @ nt_Name notif] @
     (if nt_DisplayName notif \<noteq> []
      then [''Notification-Display-Name: '' @ nt_DisplayName notif] else []) @
     [''Notification-Enabled: '' @ (if nt_Enabled notif then ''True'' else ''False'')] @
     (case nt_Icon notif of
        None \<Rightarrow> []
      | Some icon \<Rightarrow> [''Notification-Icon: '' @ getReference icon (IconMode c)]) @
     [[]]"

definition resourceLines :: "Resource \<Rightarrow> string list" where
  "resourceLines res =
     [''Identifier: '' @ Identifier res,
      ''Length: '' @ Sprintf_d (int (length (Data res))), []]"

text \<open>
  What \<open>Register\<close> does with the resource list and the \<open>seenIDs\<close> map when it
  meets an icon: in Binary mode an icon whose identifier has not been seen is appended
  and its identifier marked; otherwise nothing changes.
\<close>

definition keep :: "Client \<Rightarrow> builder \<Rightarrow> Resource option \<Rightarrow> builder" where
  "keep c b icon =
     (case icon of
        None \<Rightarrow> b
      | Some r \<Rightarrow>
          if IconMode c = IconModeBinary \<and> \<not> seenIDs b (Identifier r)
          then b\<lparr>resources := resources b @ [r], seenIDs := (seenIDs b)(Identifier r := True)\<rparr>
          else b)"

text \<open>
  The relation between the two local variables that the loop maintains: the identifiers
  marked as seen are those of the resources kept, and no two kept resources share one.
\<close>

definition seen_ok :: "builder \<Rightarrow> bool" where
  "seen_ok b \<longleftrightarrow>
     (\<forall>i. seenIDs b i \<longleftrightarrow> i \<in> Identifier ` set (resources b)) \<and>
     distinct (map Identifier (resources b))"

section \<open>Example worlds\<close>

text \<open>
  A world with the given peers, an empty file system and fixed library answers, and a
  daemon that accepts the connection and every write and sends \<open>reply\<close> before closing.
\<close>

definition example_world :: "peer list \<Rightarrow> world" where
  "example_world ps =
     \<lparr>peers = ps, trace = [], files = (\<lambda>path. Inl ''no such file''), now = 0,
      md5hex = (\<lambda>s. ''d41d8cd98f00b204e9800998ecf8427e''),
      uuid_source = (\<lambda>n. ''uuid-'' @ itoa n), uuid_count = 0,
      lowerExt = (\<lambda>path. [])\<rparr>"

definition example_peer :: "string \<Rightarrow> peer" where
  "example_peer reply =
     \<lparr>refuses = None, write_fails = None, incoming = reply, read_end = EOF\<rparr>"

definition ok_reply :: string where
  "ok_reply = ''GNTP/1.0 -OK NONE'' @ CRLF @ CRLF"

declare ReplaceAll.simps [simp del] Split.simps [simp del] blankLine.simps [simp del]
  itoa.simps [simp del] formatLoop.simps [simp del] lines76.simps [simp del]
  readResponse.simps [simp del] endsAtBlank.simps [simp del]

section \<open>Properties\<close>

subsection \<open>Priority clamping\<close>

text \<open>
  Claim C7. For every integer priority \<open>p\<close> passed to \<open>WithPriority\<close>: above 2 the
  stored priority is 2, below -2 it is -2, and from -2 to 2 it is \<open>p\<close> unchanged; 5
  gives 2 and -5 gives -2. The function is total and has no error result, and it changes
  no other field of the options.
\<close>

theorem WithPriority_clamps:
  "(p > 2 \<longrightarrow> Priority (WithPriority no p) = 2) \<and>
   (p < -2 \<longrightarrow> Priority (WithPriority no p) = -2) \<and>
   (-2 \<le> p \<and> p \<le> 2 \<longrightarrow> Priority (WithPriority no p) = p) \<and>
   Priority (WithPriority no 5) = 2 \<and>
   Priority (WithPriority no (-5)) = -2 \<and>
   WithPriority no p = no\<lparr>Priority := Priority (WithPriority no p)\<rparr>"
  by (simp add: WithPriority_def)

theorem WithPriority_clamps_witness:
  "Priority (WithPriority NewNotifyOptions 7) = 2 \<and>
   Priority (WithPriority NewNotifyOptions (-9)) = -2 \<and>
   Priority (WithPriority NewNotifyOptions 1) = 1"
  using WithPriority_clamps [of 7 NewNotifyOptions]
    WithPriority_clamps [of "-9" NewNotifyOptions]
    WithPriority_clamps [of 1 NewNotifyOptions]
  by simp

subsection \<open>File and HTTP references\<close>

text \<open>
  Replacing one character by another with \<open>ReplaceAll\<close> maps the string character by
  character.
\<close>

lemma ReplaceAll_Nil: "ReplaceAll [] old new = []"
  by (simp add: ReplaceAll.simps)

lemma ReplaceAll_char: "ReplaceAll s [a] [b] = map (\<lambda>c. if c = a then b else c) s"
proof (induction s)
  case Nil
  show ?case by (simp add: ReplaceAll_Nil)
next
  case (Cons c s)
  show ?case
    using Cons.IH by (subst ReplaceAll.simps) (simp add: HasPrefix_def)
qed


text \<open>
  Claim C9. For every resource: in FileURL mode the reference is \<open>file:///\<close> followed
  by the source path with every backslash replaced by a forward slash when the source
  path is not empty, and the data URL of the resource when it is empty; in HttpURL mode
  it is the source path as it is when not empty, and the data URL otherwise.
\<close>

theorem getReference_file_http:
  "(SourcePath r \<noteq> [] \<longrightarrow>
      getReference r IconModeFileURL =
        ''file:///'' @ map (\<lambda>c. if c = CHR 0x5C then CHR ''/'' else c) (SourcePath r)) \<and>
   (SourcePath r = [] \<longrightarrow> getReference r IconModeFileURL = toDataURL r) \<and>
   (SourcePath r \<noteq> [] \<longrightarrow> getReference r IconModeHttpURL = SourcePath r) \<and>
   (SourcePath r = [] \<longrightarrow> getReference r IconModeHttpURL = toDataURL r)"
  by (simp add: getReference_def IconModeFileURL_def IconModeHttpURL_def IconModeBinary_def
      ReplaceAll_char)

theorem getReference_file_http_witness:
  "getReference \<lparr>Identifier = ''id'', Data = ''Man'',
       SourcePath = [CHR ''C'', CHR '':'', CHR 0x5C, CHR ''i'', CHR 0x5C, CHR ''a''],
       MimeType = ''image/png''\<rparr> IconModeFileURL = ''file:///C:/i/a'' \<and>
   getReference \<lparr>Identifier = ''id'', Data = ''Man'', SourcePath = ''http://h/a.png'',
       MimeType = ''image/png''\<rparr> IconModeHttpURL = ''http://h/a.png'' \<and>
   getReference \<lparr>Identifier = ''id'', Data = ''Man'', SourcePath = [],
       MimeType = ''image/png''\<rparr> IconModeFileURL =
     toDataURL \<lparr>Identifier = ''id'', Data = ''Man'', SourcePath = [], MimeType = ''image/png''\<rparr> \<and>
   getReference \<lparr>Identifier = ''id'', Data = ''Man'', SourcePath = [],
       MimeType = ''image/png''\<rparr> IconModeHttpURL =
     toDataURL \<lparr>Identifier = ''id'', Data = ''Man'', SourcePath = [], MimeType = ''image/png''\<rparr>"
  using getReference_file_http [of "\<lparr>Identifier = ''id'', Data = ''Man'',
       SourcePath = [CHR ''C'', CHR '':'', CHR 0x5C, CHR ''i'', CHR 0x5C, CHR ''a''],
       MimeType = ''image/png''\<rparr>"]
    getReference_file_http [of "\<lparr>Identifier = ''id'', Data = ''Man'',
       SourcePath = ''http://h/a.png'', MimeType = ''image/png''\<rparr>"]
    getReference_file_http [of "\<lparr>Identifier = ''id'', Data = ''Man'', SourcePath = [],
       MimeType = ''image/png''\<rparr>"]
  by simp

subsection \<open>Data URLs\<close>

text \<open>The loop of \<open>toDataURL\<close> computes the lines of 76 characters joined by CRLF.\<close>

lemma lines76_Nil: "lines76 [] = []"
  by (simp add: lines76.simps)

lemma lines76_Cons: "s \<noteq> [] \<Longrightarrow> lines76 s = take 76 s # lines76 (drop 76 s)"
  by (subst lines76.simps) simp

lemma formatLoop_lines76:
  "formatLoop encoded i formatted = formatted @ join_crlf (lines76 (drop i encoded))"
proof (induction encoded i formatted rule: formatLoop.induct)
  case (1 encoded i formatted)
  show ?case
  proof (cases "i < length encoded")
    case False
    then show ?thesis by (subst formatLoop.simps) (simp add: lines76_Nil)
  next
    case True
    define endi where "endi = (if i + 76 > length encoded then length encoded else i + 76)"
    define f1 where "f1 = formatted @ take (endi - i) (drop i encoded)"
    define f2 where "f2 = (if endi < length encoded then f1 @ CRLF else f1)"
    have step: "formatLoop encoded i formatted = formatLoop encoded (i + 76) f2"
      using True by (subst formatLoop.simps) (simp add: Let_def endi_def f1_def f2_def)
    have ih: "formatLoop encoded (i + 76) f2 = f2 @ join_crlf (lines76 (drop (i + 76) encoded))"
      using "1.IH" [OF True endi_def f1_def f2_def] .
    have ne: "drop i encoded \<noteq> []" using True by simp
    have chunk: "take (endi - i) (drop i encoded) = take 76 (drop i encoded)"
      using True by (auto simp: endi_def)
    have rest: "drop 76 (drop i encoded) = drop (i + 76) encoded"
      by (simp add: add.commute)
    have unfold: "lines76 (drop i encoded) = take 76 (drop i encoded) # lines76 (drop (i + 76) encoded)"
      using lines76_Cons [OF ne] rest by simp
    show ?thesis
    proof (cases "endi < length encoded")
      case True
      then have more: "drop (i + 76) encoded \<noteq> []" by (auto simp: endi_def split: if_splits)
      then obtain l ls where l: "lines76 (drop (i + 76) encoded) = l # ls"
        using lines76_Cons by blast
      have "formatLoop encoded i formatted
            = (formatted @ take 76 (drop i encoded) @ CRLF) @ join_crlf (l # ls)"
        using True step ih chunk l by (simp add: f2_def f1_def)
      also have "\<dots> = formatted @ join_crlf (take 76 (drop i encoded) # l # ls)"
        by simp
      finally show ?thesis by (simp only: unfold l)
    next
      case False
      then have e: "drop (i + 76) encoded = []" by (auto simp: endi_def split: if_splits)
      have "formatLoop encoded i formatted = formatted @ take 76 (drop i encoded)"
        using False step ih chunk by (simp add: f2_def f1_def e lines76_Nil)
      also have "\<dots> = formatted @ join_crlf [take 76 (drop i encoded)]"
        by simp
      finally show ?thesis by (simp only: unfold e lines76_Nil)
    qed
  qed
qed

lemma lines76_props:
  "(\<forall>l \<in> set (lines76 s). 0 < length l \<and> length l \<le> 76) \<and> concat (lines76 s) = s"
proof (induction s rule: lines76.induct)
  case (1 s)
  show ?case
  proof (cases "s = []")
    case True
    then show ?thesis by (simp add: lines76_Nil)
  next
    case False
    have u: "lines76 s = take 76 s # lines76 (drop 76 s)" by (rule lines76_Cons [OF False])
    have ih: "(\<forall>l \<in> set (lines76 (drop 76 s)). 0 < length l \<and> length l \<le> 76) \<and>
              concat (lines76 (drop 76 s)) = drop 76 s"
      by (rule "1.IH" [OF False])
    show ?thesis using False ih by (simp add: u)
  qed
qed













text \<open>Removing the line terminators from the wrapped base64 text.\<close>

lemma HasPrefix_CRLF_Cons:
  "HasPrefix (c # s) CRLF \<longleftrightarrow> c = CHR 0x0D \<and> s \<noteq> [] \<and> hd s = CHR 0x0A"
  by (cases s) (auto simp: HasPrefix_def CRLF_def)




lemma EncodeToString_chars: "set (EncodeToString src) \<subseteq> set encodeStd \<union> {CHR ''=''}"
proof (induction src rule: EncodeToString.induct)
  case (1 a b c src)
  have len: "length encodeStd = 64" by (simp add: encodeStd_def)
  have "\<And>n. encodeStd ! (n mod 64) \<in> set encodeStd" by (simp add: len)
  then show ?case using 1 by (auto simp: Let_def)
next
  case (2 a b)
  have len: "length encodeStd = 64" by (simp add: encodeStd_def)
  have "\<And>n. encodeStd ! (n mod 64) \<in> set encodeStd" by (simp add: len)
  then show ?case by (auto simp: Let_def)
next
  case (3 a)
  have len: "length encodeStd = 64" by (simp add: encodeStd_def)
  have "\<And>n. encodeStd ! (n mod 64) \<in> set encodeStd" by (simp add: len)
  then show ?case by (auto simp: Let_def)
next
  case 4
  show ?case by simp
qed


lemma lines76_chars: "l \<in> set (lines76 s) \<Longrightarrow> set l \<subseteq> set s"
  using lines76_props [of s] by (metis Sup_upper image_eqI set_concat)





subsection \<open>Transport\<close>

lemma NewClient_unregistered: "\<not> registered (NewClient applicationName)"
  by (simp add: NewClient_def)

lemma Register_failed:
  "Register c notifications w = (Some err, c1, w1) \<Longrightarrow> c1 = c"
  by (auto simp: Register_def Let_def split: prod.splits sum.splits if_splits)

lemma Register_registered:
  "Register c notifications w = (None, c1, w1) \<Longrightarrow> c1 = c\<lparr>registered := True\<rparr>"
  by (auto simp: Register_def Let_def split: prod.splits sum.splits if_splits)

text \<open>
  Claim C1. On a client whose \<open>registered\<close> flag is false (a new client has it
  false, and only a \<open>Register\<close> that succeeds sets it), \<open>NotifyWithOptions\<close> and
  \<open>Notify\<close> return the usage error at once, whatever the notification name, title,
  text and options, and leave the world as it is: no dial, no write, no peer consumed.
\<close>

theorem Notify_before_Register:
  assumes "\<not> registered c"
  shows "NotifyWithOptions c notificationName title text options w =
           (Some (UsageError ''must call Register() before Notify()''), w) \<and>
         Notify c notificationName title text w =
           (Some (UsageError ''must call Register() before Notify()''), w)"
  using assms by (simp add: NotifyWithOptions_def Notify_def)

lemma writeResources_ok:
  "write_fails p = None \<Longrightarrow>
   writeResources p n rs w =
     (None, n + 2 * length rs,
      w\<lparr>trace := trace w @ concat (map (\<lambda>r. [Write (Data r), Write CRLF]) rs)\<rparr>)"
proof (induction rs arbitrary: n w)
  case Nil
  show ?case by simp
next
  case (Cons r rs)
  show ?case
    using Cons.prems
    by (simp add: conn_Write_def emit_def Cons.IH [OF Cons.prems])
qed

lemma DialTimeout_ok:
  "peers w = p # ps \<Longrightarrow> refuses p = None \<Longrightarrow>
   DialTimeout address w = (Inr p, w\<lparr>peers := ps, trace := trace w @ [Dial address]\<rparr>)"
  by (simp add: DialTimeout_def emit_def)

lemma sendPacket_ok:
  assumes "peers w = p # ps" "refuses p = None" "write_fails p = None"
  shows "sendPacket c pk w =
     (case readResponse (incoming p) (read_end p) [] of
        Inl e \<Rightarrow> Inl e | Inr responseStr \<Rightarrow> checkResponse responseStr,
      w\<lparr>peers := ps, trace := trace w @ [Dial (address_of c), Write pk, Close]\<rparr>)"
  using assms
  by (simp add: sendPacket_def DialTimeout_ok conn_Write_def emit_def split: sum.splits)

lemma sendPacketWithResources_ok:
  assumes "peers w = p # ps" "refuses p = None" "write_fails p = None"
  shows "sendPacketWithResources c pk rs w =
     (case readResponse (incoming p) (read_end p) [] of
        Inl e \<Rightarrow> Inl e | Inr responseStr \<Rightarrow> checkResponse responseStr,
      w\<lparr>peers := ps,
        trace := trace w @ [Dial (address_of c), Write pk] @
                 concat (map (\<lambda>r. [Write (Data r), Write CRLF]) rs) @ [Write CRLF, Close]\<rparr>)"
  using assms
  by (simp add: sendPacketWithResources_def DialTimeout_ok conn_Write_def emit_def
      writeResources_ok split: sum.splits)


theorem Notify_before_Register_witness:
  "\<not> registered (NewClient ''app'') \<and>
   NotifyWithOptions (NewClient ''app'') ''alert'' ''Hello'' ''Text''
      (WithSticky NewNotifyOptions True) (example_world [example_peer []]) =
     (Some (UsageError ''must call Register() before Notify()''),
      example_world [example_peer []]) \<and>
   Notify (NewClient ''app'') ''alert'' ''Hello'' ''Text'' (example_world [example_peer []]) =
     (Some (UsageError ''must call Register() before Notify()''),
      example_world [example_peer []])"
  using Notify_before_Register [OF NewClient_unregistered, of "''app''" "''alert''" "''Hello''"
      "''Text''" "WithSticky NewNotifyOptions True" "example_world [example_peer []]"]
    Notify_before_Register [OF NewClient_unregistered, of "''app''" "''alert''" "''Hello''"
      "''Text''" NewNotifyOptions "example_world [example_peer []]"]
    NewClient_unregistered [of "''app''"]
  by simp

lemma readResponse_blank:
  "ReadString inp = Some (line, rest) \<Longrightarrow> blankLine line \<Longrightarrow>
   readResponse inp fin response = Inr (response @ line)"
  by (subst readResponse.simps) simp

lemma readResponse_Inl:
  "readResponse inp fin response = Inl e \<Longrightarrow>
   \<exists>msg. fin = ReadFail msg \<and> \<not> Contains msg ''connection'' \<and>
         e = ReadError (''failed to read response: '' @ msg)"
proof (induction inp fin response rule: readResponse.induct)
  case (1 inp fin response)
  show ?case
  proof (cases "ReadString inp")
    case None
    then show ?thesis
      using "1.prems" by (subst (asm) readResponse.simps) (auto split: read_end.splits if_splits)
  next
    case (Some lr)
    obtain line rest where lr: "lr = (line, rest)" by (cases lr)
    show ?thesis
    proof (cases "blankLine line")
      case True
      then show ?thesis
        using "1.prems" Some lr by (subst (asm) readResponse.simps) simp
    next
      case False
      then have "readResponse rest fin (response @ line) = Inl e"
        using "1.prems" Some lr by (subst (asm) readResponse.simps) simp
      then show ?thesis
        using "1.IH" [OF Some lr [symmetric] refl False] by simp
    qed
  qed
qed

lemma readResponse_ends:
  "fin = EOF \<or> (\<exists>msg. fin = ReadFail msg \<and> Contains msg ''connection'') \<Longrightarrow>
   \<exists>R. readResponse inp fin response = Inr R"
proof (cases "readResponse inp fin response")
  case (Inl e)
  assume "fin = EOF \<or> (\<exists>msg. fin = ReadFail msg \<and> Contains msg ''connection'')"
  then show ?thesis using readResponse_Inl [OF Inl] by auto
next
  case (Inr R)
  then show ?thesis by simp
qed

lemma readResponse_Inr_iff:
  "(\<exists>R. readResponse inp fin response = Inr R) \<longleftrightarrow>
   endsAtBlank inp \<or> fin = EOF \<or> (\<exists>msg. fin = ReadFail msg \<and> Contains msg ''connection'')"
proof (induction inp fin response rule: readResponse.induct)
  case (1 inp fin response)
  show ?case
  proof (cases "ReadString inp")
    case None
    have a: "\<not> endsAtBlank inp" using None by (subst endsAtBlank.simps) simp
    show ?thesis
      using None a by (subst readResponse.simps) (auto split: read_end.splits)
  next
    case (Some lr)
    obtain line rest where lr: "lr = (line, rest)" by (cases lr)
    show ?thesis
    proof (cases "blankLine line")
      case True
      have a: "endsAtBlank inp" using Some lr True by (subst endsAtBlank.simps) simp
      show ?thesis using Some lr True a by (subst readResponse.simps) simp
    next
      case False
      have a: "endsAtBlank inp = endsAtBlank rest"
        using Some lr False by (subst endsAtBlank.simps) simp
      have b: "readResponse inp fin response = readResponse rest fin (response @ line)"
        using Some lr False by (subst readResponse.simps) simp
      show ?thesis
        unfolding a b using "1.IH" [OF Some lr [symmetric] refl False] .
    qed
  qed
qed

text \<open>
  Claim C4, as amended. When the connection is made and the writes succeed: if the
  reading ends at a blank line or at the closing of the connection (end of stream, or
  an error whose text contains \<open>connection\<close>) with the response text \<open>R\<close>
  accumulated, the send fails with the server error that embeds all of \<open>R\<close> when
  \<open>R\<close> contains \<open>-ERROR\<close>, and succeeds and returns \<open>R\<close> otherwise; the reading
  ends so exactly when the bytes hold a blank line or the stream ends with end of
  stream or such an error; and when the reading ends with any other error, the send
  fails with that read error, whatever was accumulated. In \<open>sendPacket\<close> and in
  \<open>sendPacketWithResources\<close> alike.
\<close>

theorem response_check:
  assumes "peers w = p # ps" and "refuses p = None" and "write_fails p = None"
  shows "(\<forall>R. readResponse (incoming p) (read_end p) [] = Inr R \<longrightarrow>
            fst (sendPacket c pk w) =
              (if Contains R ''-ERROR'' then Inl (ServerError (''server error: '' @ R))
               else Inr R) \<and>
            fst (sendPacketWithResources c pk rs w) =
              (if Contains R ''-ERROR'' then Inl (ServerError (''server error: '' @ R))
               else Inr R)) \<and>
         ((\<exists>R. readResponse (incoming p) (read_end p) [] = Inr R) \<longleftrightarrow>
            endsAtBlank (incoming p) \<or> read_end p = EOF \<or>
            (\<exists>msg. read_end p = ReadFail msg \<and> Contains msg ''connection'')) \<and>
         (\<forall>e. readResponse (incoming p) (read_end p) [] = Inl e \<longrightarrow>
            fst (sendPacket c pk w) = Inl e \<and>
            fst (sendPacketWithResources c pk rs w) = Inl e \<and>
            (\<exists>msg. read_end p = ReadFail msg \<and> \<not> Contains msg ''connection'' \<and>
                   e = ReadError (''failed to read response: '' @ msg)))"
proof -
  have 1: "\<forall>R. readResponse (incoming p) (read_end p) [] = Inr R \<longrightarrow>
            fst (sendPacket c pk w) =
              (if Contains R ''-ERROR'' then Inl (ServerError (''server error: '' @ R))
               else Inr R) \<and>
            fst (sendPacketWithResources c pk rs w) =
              (if Contains R ''-ERROR'' then Inl (ServerError (''server error: '' @ R))
               else Inr R)"
    using assms by (simp add: sendPacket_ok sendPacketWithResources_ok checkResponse_def)
  have 3: "\<forall>e. readResponse (incoming p) (read_end p) [] = Inl e \<longrightarrow>
            fst (sendPacket c pk w) = Inl e \<and>
            fst (sendPacketWithResources c pk rs w) = Inl e \<and>
            (\<exists>msg. read_end p = ReadFail msg \<and> \<not> Contains msg ''connection'' \<and>
                   e = ReadError (''failed to read response: '' @ msg))"
    using assms readResponse_Inl
    by (simp add: sendPacket_ok sendPacketWithResources_ok)
  show ?thesis using 1 3 readResponse_Inr_iff [of "incoming p" "read_end p" "[]"] by blast
qed

text \<open>
  The claim as stated fails: a response that holds \<open>-ERROR\<close> and is followed by a
  read error other than the closing of the connection gives the read error, not a
  server error with the response text.
\<close>

theorem read_error_after_marker_counterexample:
  "Contains (''GNTP/1.0 -ERROR 400'' @ CRLF) ''-ERROR'' \<and>
   fst (sendPacket (NewClient ''app'') ''REGISTER''
          (example_world [\<lparr>refuses = None, write_fails = None,
                           incoming = ''GNTP/1.0 -ERROR 400'' @ CRLF,
                           read_end = ReadFail ''i/o timeout''\<rparr>])) =
     Inl (ReadError ''failed to read response: i/o timeout'')"
proof -
  have rd: "readResponse (''GNTP/1.0 -ERROR 400'' @ CRLF) (ReadFail ''i/o timeout'') [] =
      Inl (ReadError ''failed to read response: i/o timeout'')"
    by (simp add: readResponse.simps ReadString_def blankLine.simps spaceRune_def CRLF_def
        HasPrefix_def)
  have c: "Contains (''GNTP/1.0 -ERROR 400'' @ CRLF) ''-ERROR''"
    by (simp add: HasPrefix_def CRLF_def)
  show ?thesis
    using c rd
    by (simp add: sendPacket_ok [where p = "\<lparr>refuses = None, write_fails = None,
          incoming = ''GNTP/1.0 -ERROR 400'' @ CRLF, read_end = ReadFail ''i/o timeout''\<rparr>"
          and ps = "[]"] example_world_def)
qed


lemma blankLine_CRLF: "blankLine CRLF"
  by (simp add: blankLine.simps spaceRune_def CRLF_def)

lemma readResponse_error_reply:
  "readResponse (''GNTP/1.0 -ERROR 400'' @ CRLF @ CRLF) EOF [] =
     Inr (''GNTP/1.0 -ERROR 400'' @ CRLF @ CRLF)"
  by (simp add: readResponse.simps ReadString_def blankLine.simps spaceRune_def CRLF_def)

lemma readResponse_ok_reply:
  "readResponse (''GNTP/1.0 -OK NONE'' @ CRLF @ CRLF) EOF [] =
     Inr (''GNTP/1.0 -OK NONE'' @ CRLF @ CRLF)"
  by (simp add: readResponse.simps ReadString_def blankLine.simps spaceRune_def CRLF_def)

theorem response_check_witness:
  "fst (sendPacket (NewClient ''app'') ''REGISTER''
          (example_world [example_peer (''GNTP/1.0 -ERROR 400'' @ CRLF @ CRLF)])) =
     Inl (ServerError (''server error: GNTP/1.0 -ERROR 400'' @ CRLF @ CRLF)) \<and>
   fst (sendPacketWithResources (NewClient ''app'') ''REGISTER'' []
          (example_world [example_peer (''GNTP/1.0 -OK NONE'' @ CRLF @ CRLF)])) =
     Inr (''GNTP/1.0 -OK NONE'' @ CRLF @ CRLF)"
proof -
  have e: "Contains (''GNTP/1.0 -ERROR 400'' @ CRLF @ CRLF) ''-ERROR''"
    by (simp add: HasPrefix_def CRLF_def)
  have k: "\<not> Contains (''GNTP/1.0 -OK NONE'' @ CRLF @ CRLF) ''-ERROR''"
    by (simp add: HasPrefix_def CRLF_def)
  have 1: "fst (sendPacket (NewClient ''app'') ''REGISTER''
          (example_world [example_peer (''GNTP/1.0 -ERROR 400'' @ CRLF @ CRLF)])) =
     Inl (ServerError (''server error: '' @ ''GNTP/1.0 -ERROR 400'' @ CRLF @ CRLF))"
    using response_check [where w = "example_world [example_peer (''GNTP/1.0 -ERROR 400'' @ CRLF @ CRLF)]"
        and p = "example_peer (''GNTP/1.0 -ERROR 400'' @ CRLF @ CRLF)" and ps = "[]"
        and c = "NewClient ''app''" and pk = "''REGISTER''" and rs = "[]"]
      e readResponse_error_reply
    by (simp add: example_world_def example_peer_def)
  have 2: "fst (sendPacketWithResources (NewClient ''app'') ''REGISTER'' []
          (example_world [example_peer (''GNTP/1.0 -OK NONE'' @ CRLF @ CRLF)])) =
     Inr (''GNTP/1.0 -OK NONE'' @ CRLF @ CRLF)"
    using response_check [where w = "example_world [example_peer (''GNTP/1.0 -OK NONE'' @ CRLF @ CRLF)]"
        and p = "example_peer (''GNTP/1.0 -OK NONE'' @ CRLF @ CRLF)" and ps = "[]"
        and c = "NewClient ''app''" and pk = "''REGISTER''" and rs = "[]"]
      k readResponse_ok_reply
    by (simp add: example_world_def example_peer_def)
  show ?thesis using 1 2 by simp
qed






lemma itoa_digit: "n < 10 \<Longrightarrow> itoa n = [char_of (48 + n)]"
  by (subst itoa.simps) simp



subsection \<open>Callback listener\<close>

lemma parseLine_unrecognised: "\<not> recognised line \<Longrightarrow> parseLine info line = info"
  by (simp add: recognised_def parseLine_def)

lemma parseLine_Timestamp: "ci_Timestamp (parseLine info line) = ci_Timestamp info"
  by (simp add: parseLine_def)

lemma foldl_parseLine_unrecognised:
  "\<forall>l \<in> set ls. \<not> recognised l \<Longrightarrow> foldl parseLine info ls = info"
  by (induction ls arbitrary: info) (simp_all add: parseLine_unrecognised)

lemma foldl_parseLine_Timestamp: "ci_Timestamp (foldl parseLine info ls) = ci_Timestamp info"
  by (induction ls arbitrary: info) (simp_all add: parseLine_Timestamp)

lemma fieldOf_Nil: "fieldOf name [] = []"
  by (simp add: fieldOf_def)

lemma fieldOf_snoc:
  "fieldOf name (ls @ [l]) = (if HasPrefix l name then drop (length name) l else fieldOf name ls)"
  by (simp add: fieldOf_def Let_def)

lemma fieldOf_unrecognised:
  "\<forall>l \<in> set ls. \<not> HasPrefix l name \<Longrightarrow> fieldOf name ls = []"
  by (simp add: fieldOf_def)

lemma HasPrefix_split: "HasPrefix l p \<Longrightarrow> l = p @ drop (length p) l"
  by (metis HasPrefix_def append_take_drop_id)

lemma prefixes_exclusive:
  "HasPrefix l ''Notification-Callback-Result: '' \<Longrightarrow> \<not> HasPrefix l ''Notification-ID: ''"
  "HasPrefix l ''Notification-Callback-Result: '' \<Longrightarrow> \<not> HasPrefix l ''Notification-Callback-Context: ''"
  "HasPrefix l ''Notification-Callback-Result: '' \<Longrightarrow> \<not> HasPrefix l ''Notification-Callback-Context-Type: ''"
  "HasPrefix l ''Notification-ID: '' \<Longrightarrow> \<not> HasPrefix l ''Notification-Callback-Context: ''"
  "HasPrefix l ''Notification-ID: '' \<Longrightarrow> \<not> HasPrefix l ''Notification-Callback-Context-Type: ''"
  "HasPrefix l ''Notification-Callback-Context: '' \<Longrightarrow> \<not> HasPrefix l ''Notification-Callback-Context-Type: ''"
proof -
  show "HasPrefix l ''Notification-Callback-Result: '' \<Longrightarrow> \<not> HasPrefix l ''Notification-ID: ''"
    by (drule HasPrefix_split, erule ssubst) (simp add: HasPrefix_def)
  show "HasPrefix l ''Notification-Callback-Result: '' \<Longrightarrow> \<not> HasPrefix l ''Notification-Callback-Context: ''"
    by (drule HasPrefix_split, erule ssubst) (simp add: HasPrefix_def)
  show "HasPrefix l ''Notification-Callback-Result: '' \<Longrightarrow> \<not> HasPrefix l ''Notification-Callback-Context-Type: ''"
    by (drule HasPrefix_split, erule ssubst) (simp add: HasPrefix_def)
  show "HasPrefix l ''Notification-ID: '' \<Longrightarrow> \<not> HasPrefix l ''Notification-Callback-Context: ''"
    by (drule HasPrefix_split, erule ssubst) (simp add: HasPrefix_def)
  show "HasPrefix l ''Notification-ID: '' \<Longrightarrow> \<not> HasPrefix l ''Notification-Callback-Context-Type: ''"
    by (drule HasPrefix_split, erule ssubst) (simp add: HasPrefix_def)
  show "HasPrefix l ''Notification-Callback-Context: '' \<Longrightarrow> \<not> HasPrefix l ''Notification-Callback-Context-Type: ''"
    by (drule HasPrefix_split, erule ssubst) (simp add: HasPrefix_def)
qed

lemma foldl_parseLine_fields:
  "foldl parseLine
     \<lparr>ci_Type = [], ci_NotificationID = [], ci_Context = [], ci_ContextType = [],
      ci_Timestamp = t\<rparr> ls =
   \<lparr>ci_Type = fieldOf ''Notification-Callback-Result: '' ls,
    ci_NotificationID = fieldOf ''Notification-ID: '' ls,
    ci_Context = fieldOf ''Notification-Callback-Context: '' ls,
    ci_ContextType = fieldOf ''Notification-Callback-Context-Type: '' ls,
    ci_Timestamp = t\<rparr>"
proof (induction ls rule: rev_induct)
  case Nil
  show ?case by (simp add: fieldOf_Nil)
next
  case (snoc l ls)
  show ?case
    unfolding foldl_append snoc.IH fieldOf_snoc
    using prefixes_exclusive [of l]
    by (auto simp: parseLine_def TrimPrefix_def)
qed


text \<open>
  Claim C5, as amended. On an inbound connection whose read fails, the connection is
  closed with nothing written and the handler not called, and the accept loop goes on
  with the next connections. On a connection whose read returns bytes, whatever they
  are, the acknowledgement is written and the registered handler is called once, with
  each field the value of the last line of the message (its first 4096 bytes, cut at
  CRLF) that starts with the field's header name, and empty when there is none; so a
  message with no recognised line gives the handler every field empty. With no handler
  registered the acknowledgement is written all the same. \<open>handleCallback\<close> has no
  error result.
\<close>

theorem callback_handling:
  "handleCallback c t (Inl err) = [CbClose] \<and>
   acceptCallbacks c (Accepted t (Inl err) # rest) = [CbClose] # acceptCallbacks c rest \<and>
   (callbackHandler c \<longrightarrow>
      handleCallback c t (Inr bytes) =
        [CbWrite (''GNTP/1.0 -OK NONE'' @ CRLF @ CRLF),
         CbHandler
           \<lparr>ci_Type = fieldOf ''Notification-Callback-Result: '' (Split (take 4096 bytes) CRLF),
            ci_NotificationID = fieldOf ''Notification-ID: '' (Split (take 4096 bytes) CRLF),
            ci_Context = fieldOf ''Notification-Callback-Context: '' (Split (take 4096 bytes) CRLF),
            ci_ContextType =
              fieldOf ''Notification-Callback-Context-Type: '' (Split (take 4096 bytes) CRLF),
            ci_Timestamp = t\<rparr>,
         CbClose]) \<and>
   (\<not> callbackHandler c \<longrightarrow>
      handleCallback c t (Inr bytes) =
        [CbWrite (''GNTP/1.0 -OK NONE'' @ CRLF @ CRLF), CbClose]) \<and>
   ((\<forall>l \<in> set (Split (take 4096 bytes) CRLF). \<not> recognised l) \<longrightarrow>
      fieldOf ''Notification-Callback-Result: '' (Split (take 4096 bytes) CRLF) = [] \<and>
      fieldOf ''Notification-ID: '' (Split (take 4096 bytes) CRLF) = [] \<and>
      fieldOf ''Notification-Callback-Context: '' (Split (take 4096 bytes) CRLF) = [] \<and>
      fieldOf ''Notification-Callback-Context-Type: '' (Split (take 4096 bytes) CRLF) = []) \<and>
   acceptCallbacks c (Accepted t (Inr bytes) # rest) =
     handleCallback c t (Inr bytes) # acceptCallbacks c rest"
proof -
  have un: "(\<forall>l \<in> set (Split (take 4096 bytes) CRLF). \<not> recognised l) \<longrightarrow>
      fieldOf ''Notification-Callback-Result: '' (Split (take 4096 bytes) CRLF) = [] \<and>
      fieldOf ''Notification-ID: '' (Split (take 4096 bytes) CRLF) = [] \<and>
      fieldOf ''Notification-Callback-Context: '' (Split (take 4096 bytes) CRLF) = [] \<and>
      fieldOf ''Notification-Callback-Context-Type: '' (Split (take 4096 bytes) CRLF) = []"
    by (auto simp: recognised_def intro!: fieldOf_unrecognised)
  show ?thesis
    using un
    by (simp add: handleCallback_def Let_def GNTPVersion_def foldl_parseLine_fields)
qed

lemma Split_garbage: "Split ''garbage'' CRLF = [''garbage'']"
  by (simp add: Split.simps HasPrefix_def CRLF_def)

text \<open>
  The claim as stated fails for a malformed message: the bytes \<open>garbage\<close> are
  acknowledged and the handler is called.
\<close>

theorem malformed_callback_counterexample:
  "handleCallback ((NewClient ''app'')\<lparr>callbackHandler := True\<rparr>) 7 (Inr ''garbage'') =
     [CbWrite (''GNTP/1.0 -OK NONE'' @ CRLF @ CRLF),
      CbHandler \<lparr>ci_Type = [], ci_NotificationID = [], ci_Context = [], ci_ContextType = [],
                 ci_Timestamp = 7\<rparr>,
      CbClose]"
  by (simp add: handleCallback_def Let_def GNTPVersion_def Split_garbage parseLine_def
      HasPrefix_def)

lemma Split_click:
  "Split (''Notification-Callback-Result: CLICK'' @ CRLF @ ''Notification-ID: abc'' @ CRLF @ CRLF) CRLF =
     [''Notification-Callback-Result: CLICK'', ''Notification-ID: abc'', [], []]"
  by (simp add: Split.simps HasPrefix_def CRLF_def)


theorem callback_handling_witness:
  "handleCallback ((NewClient ''app'')\<lparr>callbackHandler := True\<rparr>) 7 (Inl ''i/o timeout'') = [CbClose] \<and>
   acceptCallbacks ((NewClient ''app'')\<lparr>callbackHandler := True\<rparr>)
     [Accepted 7 (Inl ''i/o timeout''),
      Accepted 8 (Inr (''Notification-Callback-Result: CLICK'' @ CRLF @
                       ''Notification-ID: abc'' @ CRLF @ CRLF))] =
     [[CbClose],
      [CbWrite (''GNTP/1.0 -OK NONE'' @ CRLF @ CRLF),
       CbHandler \<lparr>ci_Type = ''CLICK'', ci_NotificationID = ''abc'', ci_Context = [],
                  ci_ContextType = [], ci_Timestamp = 8\<rparr>,
       CbClose]]"
proof -
  let ?c = "(NewClient ''app'')\<lparr>callbackHandler := True\<rparr>"
  let ?m = "''Notification-Callback-Result: CLICK'' @ CRLF @ ''Notification-ID: abc'' @ CRLF @ CRLF"
  have len: "take 4096 ?m = ?m" by (simp add: CRLF_def)
  have f: "fieldOf ''Notification-Callback-Result: '' (Split ?m CRLF) = ''CLICK''"
    "fieldOf ''Notification-ID: '' (Split ?m CRLF) = ''abc''"
    "fieldOf ''Notification-Callback-Context: '' (Split ?m CRLF) = []"
    "fieldOf ''Notification-Callback-Context-Type: '' (Split ?m CRLF) = []"
    unfolding Split_click by (simp_all add: fieldOf_def HasPrefix_def)
  have h: "handleCallback ?c 8 (Inr ?m) =
      [CbWrite (''GNTP/1.0 -OK NONE'' @ CRLF @ CRLF),
       CbHandler \<lparr>ci_Type = ''CLICK'', ci_NotificationID = ''abc'', ci_Context = [],
                  ci_ContextType = [], ci_Timestamp = 8\<rparr>,
       CbClose]"
    using callback_handling [where c = ?c and t = 8 and bytes = ?m]
    unfolding len f by simp
  show ?thesis
    using callback_handling [where c = ?c and t = 7 and err = "''i/o timeout''"
        and rest = "[Accepted 8 (Inr ?m)]"] h
    by simp
qed


subsection \<open>SendMessage\<close>

lemma message_options:
  "(let options = WithPriority (WithSticky NewNotifyOptions s) p;
        options = (if icon \<noteq> None then no_WithIcon options icon else options);
        options = (if cb \<noteq> [] then WithCallbackTarget options cb else options)
    in f options) =
   f \<lparr>Sticky = s, Priority = (if p < -2 then -2 else if p > 2 then 2 else p),
      Icon = icon, CallbackContext = [], CallbackTarget = cb\<rparr>"
  by (cases icon; cases "cb = []")
     (simp_all add: Let_def NewNotifyOptions_def WithSticky_def WithPriority_def
        no_WithIcon_def WithCallbackTarget_def)

lemma message_type:
  "nt_WithIcon (WithDisplayName (NewNotificationType ev) dn) icon =
   \<lparr>nt_Name = ev, nt_DisplayName = dn, nt_Enabled = True, nt_Icon = icon\<rparr>"
  by (simp add: NewNotificationType_def WithDisplayName_def nt_WithIcon_def)

lemma SendMessage_no_icon:
  "msg_Icon m = [] \<Longrightarrow>
   SendMessage c m w =
     (case (if \<not> registered c
            then Register c [\<lparr>nt_Name = msg_Event m,
                    nt_DisplayName = (if msg_DisplayName m = [] then msg_Event m else msg_DisplayName m),
                    nt_Enabled = True, nt_Icon = None\<rparr>] w
            else (None, c, w)) of
        (Some err, c1, w2) \<Rightarrow> (Some err, c1, w2)
      | (None, c1, w2) \<Rightarrow>
          (let (err, w3) = NotifyWithOptions c1 (msg_Event m) (msg_Title m) (msg_Text m)
                  \<lparr>Sticky = msg_Sticky m,
                   Priority = (if msg_Priority m < -2 then -2
                               else if msg_Priority m > 2 then 2 else msg_Priority m),
                   Icon = None, CallbackContext = [], CallbackTarget = msg_Callback m\<rparr> w2
           in (err, c1, w3)))"
  unfolding SendMessage_def message_options message_type
  by (simp add: Let_def split del: if_split cong: if_cong)

lemma SendMessage_icon:
  "msg_Icon m \<noteq> [] \<Longrightarrow> LoadResource (msg_Icon m) w = (Inr res, w1) \<Longrightarrow>
   SendMessage c m w =
     (case (if \<not> registered c
            then Register c [\<lparr>nt_Name = msg_Event m,
                    nt_DisplayName = (if msg_DisplayName m = [] then msg_Event m else msg_DisplayName m),
                    nt_Enabled = True, nt_Icon = Some res\<rparr>] w1
            else (None, c, w1)) of
        (Some err, c1, w2) \<Rightarrow> (Some err, c1, w2)
      | (None, c1, w2) \<Rightarrow>
          (let (err, w3) = NotifyWithOptions c1 (msg_Event m) (msg_Title m) (msg_Text m)
                  \<lparr>Sticky = msg_Sticky m,
                   Priority = (if msg_Priority m < -2 then -2
                               else if msg_Priority m > 2 then 2 else msg_Priority m),
                   Icon = Some res, CallbackContext = [], CallbackTarget = msg_Callback m\<rparr> w2
           in (err, c1, w3)))"
  unfolding SendMessage_def message_options message_type
  by (simp add: Let_def split del: if_split cong: if_cong)

lemma SendMessage_icon_fails:
  "msg_Icon m \<noteq> [] \<Longrightarrow> LoadResource (msg_Icon m) w = (Inl e, w1) \<Longrightarrow>
   SendMessage c m w = (Some (ResourceError (''failed to load icon: '' @ Error e)), c, w1)"
  by (simp add: SendMessage_def)


text \<open>
  Claim C10, as amended. Let the message have no icon path, or one that
  \<open>LoadResource\<close> loads. On a client whose \<open>registered\<close> flag is false,
  \<open>SendMessage\<close> registers the single notification type named by the message's event
  (display name the event when the message gives none, enabled, with the icon), returns
  the registration's error if it fails, and otherwise sends the notification with the
  options built from the message. On a registered client it registers nothing and is
  \<open>NotifyWithOptions\<close> for the event, whatever the event is: the client keeps no
  record of the types it registered.
\<close>

theorem SendMessage_flow:
  assumes "msg_Icon m = [] \<and> icon = None \<and> w1 = w \<or>
           msg_Icon m \<noteq> [] \<and> LoadResource (msg_Icon m) w = (Inr res, w1) \<and> icon = Some res"
  shows "(\<not> registered c \<longrightarrow>
            SendMessage c m w =
              (case Register c [\<lparr>nt_Name = msg_Event m,
                      nt_DisplayName = (if msg_DisplayName m = [] then msg_Event m
                                        else msg_DisplayName m),
                      nt_Enabled = True, nt_Icon = icon\<rparr>] w1 of
                 (Some err, c1, w2) \<Rightarrow> (Some err, c1, w2)
               | (None, c1, w2) \<Rightarrow>
                   (let (err, w3) = NotifyWithOptions c1 (msg_Event m) (msg_Title m) (msg_Text m)
                          \<lparr>Sticky = msg_Sticky m,
                           Priority = (if msg_Priority m < -2 then -2
                                       else if msg_Priority m > 2 then 2 else msg_Priority m),
                           Icon = icon, CallbackContext = [],
                           CallbackTarget = msg_Callback m\<rparr> w2
                    in (err, c1, w3)))) \<and>
         (registered c \<longrightarrow>
            SendMessage c m w =
              (let (err, w3) = NotifyWithOptions c (msg_Event m) (msg_Title m) (msg_Text m)
                     \<lparr>Sticky = msg_Sticky m,
                      Priority = (if msg_Priority m < -2 then -2
                                  else if msg_Priority m > 2 then 2 else msg_Priority m),
                      Icon = icon, CallbackContext = [],
                      CallbackTarget = msg_Callback m\<rparr> w1
               in (err, c, w3)))"
  using assms
proof (elim disjE conjE)
  assume a: "msg_Icon m = []" and i: "icon = None" and w: "w1 = w"
  show ?thesis
    unfolding i w using SendMessage_no_icon [OF a, of c w]
    by (cases "registered c") simp_all
next
  assume a: "msg_Icon m \<noteq> []" and l: "LoadResource (msg_Icon m) w = (Inr res, w1)"
    and i: "icon = Some res"
  show ?thesis
    unfolding i using SendMessage_icon [OF a l, of c]
    by (cases "registered c") simp_all
qed

text \<open>
  The claim as stated fails for a message whose icon does not load: \<open>SendMessage\<close>
  returns the error, the client stays unregistered and nothing is sent.
\<close>

theorem SendMessage_icon_counterexample:
  "SendMessage (NewClient ''app'')
     \<lparr>msg_Event = ''alert'', msg_Title = ''Title'', msg_Text = ''Message'',
      msg_Icon = ''missing.png'', msg_Callback = [], msg_DisplayName = ''Alert'',
      msg_Sticky = False, msg_Priority = 0\<rparr>
     (example_world [example_peer [], example_peer []]) =
   (Some (ResourceError ''failed to load icon: failed to read file: no such file''),
    NewClient ''app'', example_world [example_peer [], example_peer []])"
  by (simp add: SendMessage_def LoadResource_def example_world_def)


lemma address_of_registered: "address_of (c\<lparr>registered := b\<rparr>) = address_of c"
  by (simp add: address_of_def)

lemma readResponse_ok: "readResponse ok_reply EOF [] = Inr ok_reply"
  by (simp add: ok_reply_def readResponse.simps ReadString_def blankLine.simps spaceRune_def
      CRLF_def)

lemma checkResponse_ok: "checkResponse ok_reply = Inr ok_reply"
  by (simp add: ok_reply_def checkResponse_def HasPrefix_def CRLF_def)

theorem SendMessage_flow_witness:
  "SendMessage (NewClient ''app'')
     \<lparr>msg_Event = ''alert'', msg_Title = ''Title'', msg_Text = ''Message'', msg_Icon = [],
      msg_Callback = ''https://example.com'', msg_DisplayName = [], msg_Sticky = True,
      msg_Priority = 5\<rparr>
     (example_world [example_peer ok_reply,
                     example_peer ok_reply]) =
   (None, (NewClient ''app'')\<lparr>registered := True\<rparr>,
    (example_world [])\<lparr>trace :=
      [Dial (address_of (NewClient ''app'')),
       Write (''GNTP/1.0 REGISTER NONE'' @ CRLF @ ''Application-Name: app'' @ CRLF @
              ''Notifications-Count: 1'' @ CRLF @ CRLF @
              ''Notification-Name: alert'' @ CRLF @ ''Notification-Display-Name: alert'' @ CRLF @
              ''Notification-Enabled: True'' @ CRLF @ CRLF),
       Close,
       Dial (address_of (NewClient ''app'')),
       Write (''GNTP/1.0 NOTIFY NONE'' @ CRLF @ ''Application-Name: app'' @ CRLF @
              ''Notification-Name: alert'' @ CRLF @
              ''Notification-ID: d41d8cd98f00b204e9800998ecf8427e'' @ CRLF @
              ''Notification-Title: Title'' @ CRLF @ ''Notification-Text: Message'' @ CRLF @
              ''Notification-Sticky: True'' @ CRLF @ ''Notification-Priority: 2'' @ CRLF @ CRLF),
       Close]\<rparr>) \<and>
   SendMessage ((NewClient ''app'')\<lparr>registered := True\<rparr>)
     \<lparr>msg_Event = ''never-registered'', msg_Title = ''Title'', msg_Text = ''Message'',
      msg_Icon = [], msg_Callback = [], msg_DisplayName = [], msg_Sticky = False,
      msg_Priority = 0\<rparr>
     (example_world [example_peer ok_reply]) =
   (None, (NewClient ''app'')\<lparr>registered := True\<rparr>,
    (example_world [])\<lparr>trace :=
      [Dial (address_of (NewClient ''app'')),
       Write (''GNTP/1.0 NOTIFY NONE'' @ CRLF @ ''Application-Name: app'' @ CRLF @
              ''Notification-Name: never-registered'' @ CRLF @
              ''Notification-ID: d41d8cd98f00b204e9800998ecf8427e'' @ CRLF @
              ''Notification-Title: Title'' @ CRLF @ ''Notification-Text: Message'' @ CRLF @ CRLF),
       Close]\<rparr>)"
proof -
  let ?ok = "example_peer ok_reply"
  have p: "refuses ?ok = None" "write_fails ?ok = None"
    "incoming ?ok = ok_reply" "read_end ?ok = EOF"
    by (simp_all add: example_peer_def)
  have m: "IconMode (NewClient ''app'') \<noteq> IconModeBinary" "registered (NewClient ''app'') = False"
    "ApplicationName (NewClient ''app'') = ''app''" "callbackURL (NewClient ''app'') = []"
    "ApplicationIcon (NewClient ''app'') = None"
    by (simp_all add: NewClient_def IconModeBinary_def IconModeDataURL_def)
  have send: "\<And>c pk ps. sendPacket c pk (example_world (?ok # ps)) =
      (Inr ok_reply,
       (example_world ps)\<lparr>trace := [Dial (address_of c), Write pk, Close]\<rparr>)"
    by (subst sendPacket_ok [where p = ?ok])
       (simp_all add: p readResponse_ok checkResponse_ok, simp_all add: example_world_def)
  have send2: "\<And>c pk ps es. sendPacket c pk ((example_world (?ok # ps))\<lparr>trace := es\<rparr>) =
      (Inr ok_reply,
       (example_world ps)\<lparr>trace := es @ [Dial (address_of c), Write pk, Close]\<rparr>)"
    by (subst sendPacket_ok [where p = ?ok])
       (simp_all add: p readResponse_ok checkResponse_ok, simp_all add: example_world_def)
  have md5: "\<And>ps es x. md5hex ((example_world ps)\<lparr>trace := es\<rparr>) x = ''d41d8cd98f00b204e9800998ecf8427e''"
    "\<And>ps x. md5hex (example_world ps) x = ''d41d8cd98f00b204e9800998ecf8427e''"
    by (simp_all add: example_world_def)
  show ?thesis
    using SendMessage_flow [of "\<lparr>msg_Event = ''alert'', msg_Title = ''Title'',
        msg_Text = ''Message'', msg_Icon = [], msg_Callback = ''https://example.com'',
        msg_DisplayName = [], msg_Sticky = True, msg_Priority = 5\<rparr>" None
        "example_world [?ok, ?ok]" "example_world [?ok, ?ok]" undefined "NewClient ''app''"]
      SendMessage_flow [of "\<lparr>msg_Event = ''never-registered'', msg_Title = ''Title'',
        msg_Text = ''Message'', msg_Icon = [], msg_Callback = [], msg_DisplayName = [],
        msg_Sticky = False, msg_Priority = 0\<rparr>" None
        "example_world [?ok]" "example_world [?ok]" undefined "(NewClient ''app'')\<lparr>registered := True\<rparr>"]
    by (simp add: m send send2 md5 Register_def NotifyWithOptions_def registerPacket_def
        registerPreamble_def registerNotification_def binaryResources_def notifyPacket_def
        WriteString_def GNTPVersion_def Sprintf_d_def itoa_digit char_of_eq_iff take_bit_eq_mod
        address_of_registered Let_def)
qed

subsection \<open>Lines of a packet\<close>

lemma Split_Nil: "Split [] sep = [[]]"
  by (simp add: Split.simps)

lemma Split_not_Nil: "Split s sep \<noteq> []"
  by (subst Split.simps) (simp split: list.splits)

lemma Split_CRLF_prefix: "Split (CRLF @ s) CRLF = [] # Split s CRLF"
  by (subst Split.simps) (simp add: HasPrefix_def CRLF_def)

lemma Split_Cons_other:
  "\<not> HasPrefix (c # s) CRLF \<Longrightarrow>
   Split (c # s) CRLF = (c # hd (Split s CRLF)) # tl (Split s CRLF)"
  using Split_not_Nil [of s CRLF]
  by (subst Split.simps) (simp add: CRLF_def split: list.splits)

lemma HasPrefix_CRLF_append:
  "HasPrefix (c # a) CRLF \<Longrightarrow> HasPrefix (c # a @ b) CRLF"
  by (cases a) (auto simp: HasPrefix_def CRLF_def)

lemma not_HasPrefix_CRLF_append:
  "\<not> HasPrefix (c # a) CRLF \<Longrightarrow> \<not> HasPrefix (c # a @ CRLF @ b) CRLF"
  by (cases a) (auto simp: HasPrefix_def CRLF_def)

lemma HasPrefix_CRLF_drop:
  "HasPrefix s CRLF \<Longrightarrow> s = CRLF @ drop 2 s"
  by (cases s; cases "tl s") (auto simp: HasPrefix_def CRLF_def)

lemma Split_append_CRLF:
  "Split (a @ CRLF @ b) CRLF = Split a CRLF @ Split b CRLF"
proof (induction a CRLF rule: Split.induct)
  case (1 a)
  show ?case
  proof (cases "a = []")
    case True
    then show ?thesis by (simp add: Split_Nil Split_CRLF_prefix)
  next
    case ne: False
    then obtain c a' where a: "a = c # a'" by (cases a) auto
    have sep: "CRLF \<noteq> []" by (simp add: CRLF_def)
    show ?thesis
    proof (cases "HasPrefix a CRLF")
      case True
      then have eq: "a = CRLF @ drop 2 a" by (rule HasPrefix_CRLF_drop)
      have len: "length CRLF = 2" by (simp add: CRLF_def)
      have ih: "Split (drop 2 a @ CRLF @ b) CRLF = Split (drop 2 a) CRLF @ Split b CRLF"
        using "1.hyps"(1) ne sep True len by simp
      have "Split (a @ CRLF @ b) CRLF = Split (CRLF @ (drop 2 a @ CRLF @ b)) CRLF"
        using eq by (metis append.assoc)
      also have "\<dots> = [] # Split (drop 2 a @ CRLF @ b) CRLF" by (rule Split_CRLF_prefix)
      also have "\<dots> = ([] # Split (drop 2 a) CRLF) @ Split b CRLF" using ih by simp
      also have "[] # Split (drop 2 a) CRLF = Split (CRLF @ drop 2 a) CRLF"
        by (rule Split_CRLF_prefix [symmetric])
      finally show ?thesis using eq by simp
    next
      case False
      have ih: "Split (a' @ CRLF @ b) CRLF = Split a' CRLF @ Split b CRLF"
        using "1.hyps"(2) ne sep False a by simp
      have n1: "\<not> HasPrefix (c # a') CRLF" using False a by simp
      have n2: "\<not> HasPrefix (c # a' @ CRLF @ b) CRLF"
        by (rule not_HasPrefix_CRLF_append [OF n1])
      show ?thesis
        using Split_Cons_other [OF n1] Split_Cons_other [OF n2] ih Split_not_Nil [of a' CRLF]
        by (simp add: a)
    qed
  qed
qed

lemma Split_no_CRLF: "\<not> Contains s CRLF \<Longrightarrow> Split s CRLF = [s]"
proof (induction s)
  case Nil
  show ?case by (simp add: Split_Nil)
next
  case (Cons c s)
  then have n: "\<not> HasPrefix (c # s) CRLF" and "Split s CRLF = [s]" by simp_all
  then show ?case using Split_Cons_other [OF n] by simp
qed

lemma Contains_no_CR: "CHR 0x0D \<notin> set x \<Longrightarrow> Contains (x @ y) CRLF = Contains y CRLF"
proof (induction x)
  case Nil
  show ?case by simp
next
  case (Cons c x)
  then have "\<not> HasPrefix (c # x @ y) CRLF" by (auto simp: HasPrefix_CRLF_Cons)
  then show ?case using Cons by simp
qed

lemma Contains_no_LF: "CHR 0x0A \<notin> set y \<Longrightarrow> Contains (x @ y) CRLF = Contains x CRLF"
proof (induction x)
  case Nil
  have "\<not> Contains y CRLF" using Nil
  proof (induction y)
    case Nil
    show ?case by (simp add: CRLF_def)
  next
    case (Cons d y)
    then show ?case by (cases y) (auto simp: HasPrefix_CRLF_Cons)
  qed
  then show ?case by (simp add: CRLF_def)
next
  case (Cons c x)
  have "HasPrefix (c # x @ y) CRLF = HasPrefix (c # x) CRLF"
    using Cons.prems by (cases x; cases y) (auto simp: HasPrefix_CRLF_Cons)
  then show ?case using Cons by simp
qed

lemma Split_lines:
  "Split (concat (map (\<lambda>l. l @ CRLF) ls) @ rest) CRLF =
   concat (map (\<lambda>l. Split l CRLF) ls) @ Split rest CRLF"
proof (induction ls)
  case Nil
  show ?case by simp
next
  case (Cons l ls)
  have "Split (concat (map (\<lambda>l. l @ CRLF) (l # ls)) @ rest) CRLF =
        Split (l @ CRLF @ (concat (map (\<lambda>l. l @ CRLF) ls) @ rest)) CRLF"
    by simp
  also have "\<dots> = Split l CRLF @ Split (concat (map (\<lambda>l. l @ CRLF) ls) @ rest) CRLF"
    by (rule Split_append_CRLF)
  finally show ?case using Cons by simp
qed

lemma notifyPacket_lines:
  "packet (notifyPacket c notificationName title text options notificationID) =
   concat (map (\<lambda>l. l @ CRLF) (notifyLines c notificationName title text options notificationID))"
  by (cases "Sticky options"; cases "Priority options = 0"; cases "Icon options";
      cases "callbackURL c = []"; cases "CallbackTarget options = []";
      cases "IconMode c = IconModeBinary")
     (simp_all add: notifyPacket_def notifyLines_def binaryResources_def resourceHeader_def
        WriteString_def)

lemma headerLines_lines:
  "name \<noteq> [] \<Longrightarrow>
   headerLines (concat (map (\<lambda>l. l @ CRLF) ls)) name = concat (map (\<lambda>l. headerLines l name) ls)"
  using Split_lines [of ls "[]"]
  by (simp add: headerLines_def Split_Nil filter_concat HasPrefix_def comp_def)

lemma headerLines_field:
  "CHR 0x0D \<notin> set key \<Longrightarrow> \<not> Contains v CRLF \<Longrightarrow>
   headerLines (key @ v) name = (if HasPrefix (key @ v) name then [key @ v] else [])"
  by (simp add: headerLines_def Split_no_CRLF Contains_no_CR)

lemma HasPrefix_set: "HasPrefix l k \<Longrightarrow> set k \<subseteq> set l"
  by (metis HasPrefix_def set_take_subset)

lemma no_CR_plain: "CHR 0x0D \<notin> set s \<Longrightarrow> \<not> Contains s CRLF"
  using Contains_no_CR [of s "[]"] by (simp add: CRLF_def)

lemma no_LF_plain: "CHR 0x0A \<notin> set s \<Longrightarrow> \<not> Contains s CRLF"
  using Contains_no_LF [of s "[]"] by (simp add: CRLF_def)

lemma Contains_map:
  assumes "\<And>c. f c = CHR 0x0D \<longleftrightarrow> c = CHR 0x0D" and "\<And>c. f c = CHR 0x0A \<longleftrightarrow> c = CHR 0x0A"
  shows "Contains (map f s) CRLF = Contains s CRLF"
proof (induction s)
  case Nil
  show ?case by simp
next
  case (Cons c s)
  have "HasPrefix (f c # map f s) CRLF = HasPrefix (c # s) CRLF"
    using assms by (cases s) (auto simp: HasPrefix_CRLF_Cons)
  then show ?case using Cons by simp
qed

lemma plain_backslash:
  "\<not> Contains s CRLF \<Longrightarrow> \<not> Contains (ReplaceAll s [CHR 0x5C] ''/'') CRLF"
  by (simp add: ReplaceAll_char Contains_map)

lemma itoa_no_CR: "CHR 0x0D \<notin> set (itoa n)"
proof (induction n rule: itoa.induct)
  case (1 n)
  have d: "\<And>k::nat. k < 10 \<Longrightarrow> char_of (48 + k) \<noteq> CHR 0x0D"
    by (simp add: char_of_eq_iff take_bit_eq_mod)
  show ?case
  proof (cases "n < 10")
    case True
    then show ?thesis using d [of n] by (subst itoa.simps) simp
  next
    case False
    then show ?thesis using 1 d [of "n mod 10"] by (subst itoa.simps) simp
  qed
qed

lemma Sprintf_d_plain: "\<not> Contains (Sprintf_d i) CRLF"
  by (rule no_CR_plain) (simp add: Sprintf_d_def itoa_no_CR)

lemma base64_line:
  assumes "x \<in> set (lines76 (EncodeToString d))"
  shows "set x \<subseteq> set encodeStd \<union> {CHR ''=''}"
  using lines76_chars [OF assms] EncodeToString_chars by blast

lemma base64_no_LF: "CHR 0x0A \<notin> set encodeStd \<union> {CHR ''=''}"
  by (simp add: encodeStd_def)

lemma base64_no_dash: "CHR ''-'' \<notin> set encodeStd \<union> {CHR ''=''}"
  by (simp add: encodeStd_def)

lemma Split_join_crlf:
  "\<not> Contains (p @ l) CRLF \<Longrightarrow> \<forall>x \<in> set ls. \<not> Contains x CRLF \<Longrightarrow>
   Split (p @ join_crlf (l # ls)) CRLF = (p @ l) # ls"
proof (induction ls arbitrary: p l)
  case Nil
  then show ?case by (simp add: Split_no_CRLF)
next
  case (Cons l' ls)
  have "Split (p @ join_crlf (l # l' # ls)) CRLF = Split ((p @ l) @ CRLF @ join_crlf (l' # ls)) CRLF"
    by simp
  also have "\<dots> = Split (p @ l) CRLF @ Split ([] @ join_crlf (l' # ls)) CRLF"
    using Split_append_CRLF [of "p @ l" "join_crlf (l' # ls)"] by simp
  also have "\<dots> = [p @ l] @ (l' # ls)"
    using Cons.prems Cons.IH [of "[]" l'] by (simp add: Split_no_CRLF)
  finally show ?case by simp
qed

lemma headerLines_Nil: "name \<noteq> [] \<Longrightarrow> headerLines [] name = []"
  by (simp add: headerLines_def Split_Nil HasPrefix_def)

lemma headerLines_toDataURL:
  assumes key: "CHR 0x0D \<notin> set key" and dash: "CHR ''-'' \<in> set name"
    and np: "\<And>x. \<not> HasPrefix (key @ x) name"
    and mime: "\<not> Contains (MimeType r) CRLF"
  shows "headerLines (key @ toDataURL r) name = []"
proof -
  let ?ls = "lines76 (EncodeToString (Data r))"
  let ?p = "key @ ''data:'' @ MimeType r @ '';base64,''"
  have form: "key @ toDataURL r = ?p @ join_crlf ?ls"
    by (simp add: toDataURL_def formatLoop_lines76)
  have b64: "\<And>x. x \<in> set ?ls \<Longrightarrow> set x \<subseteq> set encodeStd \<union> {CHR ''=''}"
    by (rule base64_line)
  have pl: "\<And>x. CHR 0x0A \<notin> set x \<Longrightarrow> \<not> Contains (?p @ x) CRLF"
  proof -
    fix x :: string
    assume x: "CHR 0x0A \<notin> set x"
    have "Contains (?p @ x) CRLF = Contains ((key @ ''data:'') @ (MimeType r @ '';base64,'' @ x)) CRLF"
      by simp
    also have "\<dots> = Contains (MimeType r @ ('';base64,'' @ x)) CRLF"
      using key by (subst Contains_no_CR) simp_all
    also have "\<dots> = Contains (MimeType r) CRLF"
      using x by (subst Contains_no_LF) simp_all
    finally show "\<not> Contains (?p @ x) CRLF" using mime by simp
  qed
  show ?thesis
  proof (cases ?ls)
    case Nil
    have "\<not> Contains (?p @ []) CRLF" by (rule pl) simp
    then have "Split (?p @ join_crlf ?ls) CRLF = [?p]"
      using Nil by (simp add: Split_no_CRLF)
    then show ?thesis
      using np [of "''data:'' @ MimeType r @ '';base64,''"]
      by (simp add: form headerLines_def)
  next
    case (Cons l ls)
    have lnl: "CHR 0x0A \<notin> set l" using b64 [of l] Cons base64_no_LF by auto
    have rest: "\<forall>x \<in> set ls. \<not> Contains x CRLF"
      using b64 Cons base64_no_LF no_LF_plain by (metis list.set_intros(2) subsetD)
    have "Split (?p @ join_crlf ?ls) CRLF = (?p @ l) # ls"
      unfolding Cons by (rule Split_join_crlf [OF pl [OF lnl] rest])
    moreover have "\<not> HasPrefix (?p @ l) name"
      using np [of "''data:'' @ MimeType r @ '';base64,'' @ l"] by simp
    moreover have "\<forall>x \<in> set ls. \<not> HasPrefix x name"
      using b64 Cons base64_no_dash dash HasPrefix_set
      by (metis list.set_intros(2) subsetD)
    ultimately show ?thesis
      by (simp add: form headerLines_def)
  qed
qed

lemma headerLines_getReference:
  assumes key: "CHR 0x0D \<notin> set key" and dash: "CHR ''-'' \<in> set name"
    and np: "\<And>x. \<not> HasPrefix (key @ x) name"
    and r: "plainResource r"
  shows "headerLines (key @ getReference r mode) name = []"
proof -
  have simple: "\<And>v. \<not> Contains v CRLF \<Longrightarrow> headerLines (key @ v) name = []"
    using np by (simp add: headerLines_field [OF key])
  have id: "\<not> Contains (''x-growl-resource://'' @ Identifier r) CRLF"
    using r by (subst Contains_no_CR) (simp_all add: plainResource_def plain_def)
  have fileurl: "\<not> Contains (''file:///'' @ ReplaceAll (SourcePath r) [CHR 0x5C] ''/'') CRLF"
    using r by (subst Contains_no_CR) (simp_all add: plainResource_def plain_def plain_backslash)
  have http: "\<not> Contains (SourcePath r) CRLF"
    using r by (simp add: plainResource_def plain_def)
  have data: "headerLines (key @ toDataURL r) name = []"
    using r by (intro headerLines_toDataURL key dash np) (simp add: plainResource_def plain_def)
  show ?thesis
    using simple [OF id] simple [OF fileurl] simple [OF http] data
    by (simp add: getReference_def Let_def)
qed


subsection \<open>Sticky and priority lines of NOTIFY\<close>

lemma headerLines_plain_field:
  "CHR 0x0D \<notin> set key \<Longrightarrow> plain v \<Longrightarrow>
   headerLines (key @ v) name = (if HasPrefix (key @ v) name then [key @ v] else [])"
  by (simp add: plain_def headerLines_field)

lemma headerLines_literal:
  "CHR 0x0D \<notin> set key \<Longrightarrow>
   headerLines key name = (if HasPrefix key name then [key] else [])"
  using headerLines_field [of key "[]" name] by (simp add: CRLF_def)

lemma notify_headerLines_Sticky:
  assumes "plain (ApplicationName c)" and "plain notificationName" and "plain notificationID"
    and "plain title" and "plain text"
    and "plain (CallbackContext options)" and "plain (CallbackTarget options)"
    and icon: "\<forall>icon. Icon options = Some icon \<longrightarrow> plainResource icon"
  shows "headerLines (packet (notifyPacket c notificationName title text options notificationID))
           ''Notification-Sticky'' =
         (if Sticky options then [''Notification-Sticky: True''] else [])"
proof -
  let ?name = "''Notification-Sticky''"
  have ne: "?name \<noteq> []" and dash: "CHR ''-'' \<in> set ?name" by simp_all
  have ref: "\<And>r. Icon options = Some r \<Longrightarrow>
      headerLines (''Notification-Icon: '' @ getReference r (IconMode c)) ?name = []"
  proof -
    fix r assume "Icon options = Some r"
    then have pr: "plainResource r" using icon by simp
    have np: "\<And>x. \<not> HasPrefix (''Notification-Icon: '' @ x) ?name"
      by (auto simp: HasPrefix_def)
    have key: "CHR 0x0D \<notin> set ''Notification-Icon: ''" by simp
    show "headerLines (''Notification-Icon: '' @ getReference r (IconMode c)) ?name = []"
      by (rule headerLines_getReference [OF key dash np pr])
  qed
  have idl: "\<And>r. Icon options = Some r \<Longrightarrow> plain (Identifier r)"
    using icon by (simp add: plainResource_def)
  have num: "\<And>i. plain (Sprintf_d i)" by (simp add: plain_def Sprintf_d_plain)
  have step: "headerLines (packet (notifyPacket c notificationName title text options notificationID)) ?name =
      concat (map (\<lambda>l. headerLines l ?name)
        (notifyLines c notificationName title text options notificationID))"
    using headerLines_lines [OF ne] by (simp only: notifyPacket_lines)
  have f1: "\<And>key v. CHR 0x0D \<notin> set key \<Longrightarrow> plain v \<Longrightarrow> \<not> HasPrefix (key @ v) ?name \<Longrightarrow>
      headerLines (key @ v) ?name = []"
    by (simp add: headerLines_plain_field)
  have f2: "\<And>key. CHR 0x0D \<notin> set key \<Longrightarrow> \<not> HasPrefix key ?name \<Longrightarrow> headerLines key ?name = []"
    by (simp add: headerLines_literal)
  have h1: "headerLines (''GNTP/'' @ GNTPVersion @ '' NOTIFY NONE'') ?name = []"
    by (rule f2) (simp_all add: GNTPVersion_def HasPrefix_def)
  have h2: "headerLines (''Application-Name: '' @ ApplicationName c) ?name = []"
    by (rule f1) (simp_all add: assms HasPrefix_def)
  have h3: "headerLines (''Notification-Name: '' @ notificationName) ?name = []"
    by (rule f1) (simp_all add: assms HasPrefix_def)
  have h4: "headerLines (''Notification-ID: '' @ notificationID) ?name = []"
    by (rule f1) (simp_all add: assms HasPrefix_def)
  have h5: "headerLines (''Notification-Title: '' @ title) ?name = []"
    by (rule f1) (simp_all add: assms HasPrefix_def)
  have h6: "headerLines (''Notification-Text: '' @ text) ?name = []"
    by (rule f1) (simp_all add: assms HasPrefix_def)
  have h7: "headerLines ''Notification-Sticky: True'' ?name = [''Notification-Sticky: True'']"
    by (simp add: headerLines_literal HasPrefix_def)
  have h8: "headerLines (''Notification-Priority: '' @ Sprintf_d (Priority options)) ?name = []"
    by (rule f1) (simp_all add: num HasPrefix_def)
  have h9: "headerLines (''Notification-Callback-Context: '' @ CallbackContext options) ?name = []"
    by (rule f1) (simp_all add: assms HasPrefix_def)
  have h10: "headerLines ''Notification-Callback-Context-Type: string'' ?name = []"
    by (rule f2) (simp_all add: HasPrefix_def)
  have h11: "headerLines (''Notification-Callback-Target: '' @ CallbackTarget options) ?name = []"
    by (rule f1) (simp_all add: assms HasPrefix_def)
  have h12: "headerLines [] ?name = []"
    by (rule headerLines_Nil) simp
  have h13: "\<And>r. Icon options = Some r \<Longrightarrow> headerLines (''Identifier: '' @ Identifier r) ?name = []"
    by (rule f1) (simp_all add: idl HasPrefix_def)
  have h14: "\<And>r. headerLines (''Length: '' @ Sprintf_d (int (length (Data r)))) ?name = []"
    by (rule f1) (simp_all add: num HasPrefix_def)
  note hs = h1 h2 h3 h4 h5 h6 h7 h8 h9 h10 h11 h12 h14
  note lists = map_append concat_append list.map concat.simps append_Nil2 append_Nil
    if_distrib [of "map _"] if_distrib [of concat]
  note ifs = if_distrib [of "\<lambda>x. x @ _"] if_distrib [of "\<lambda>x. _ @ x"] append_Nil append_Nil2
    if_cancel
  show ?thesis
  proof (cases "Icon options")
    case None
    show ?thesis
      apply (simp only: step notifyLines_def None option.case)
      apply (simp only: lists hs)
      apply (simp only: ifs cong: if_cong)
      done
  next
    case (Some r)
    show ?thesis
      apply (simp only: step notifyLines_def Some option.case)
      apply (simp only: lists hs ref [OF Some] h13 [OF Some])
      apply (simp only: ifs cong: if_cong)
      done
  qed
qed

lemma notify_headerLines_Priority:
  assumes "plain (ApplicationName c)" and "plain notificationName" and "plain notificationID"
    and "plain title" and "plain text"
    and "plain (CallbackContext options)" and "plain (CallbackTarget options)"
    and icon: "\<forall>icon. Icon options = Some icon \<longrightarrow> plainResource icon"
  shows "headerLines (packet (notifyPacket c notificationName title text options notificationID))
           ''Notification-Priority'' =
         (if Priority options \<noteq> 0
          then [''Notification-Priority: '' @ Sprintf_d (Priority options)] else [])"
proof -
  let ?name = "''Notification-Priority''"
  have ne: "?name \<noteq> []" and dash: "CHR ''-'' \<in> set ?name" by simp_all
  have ref: "\<And>r. Icon options = Some r \<Longrightarrow>
      headerLines (''Notification-Icon: '' @ getReference r (IconMode c)) ?name = []"
  proof -
    fix r assume "Icon options = Some r"
    then have pr: "plainResource r" using icon by simp
    have np: "\<And>x. \<not> HasPrefix (''Notification-Icon: '' @ x) ?name"
      by (auto simp: HasPrefix_def)
    have key: "CHR 0x0D \<notin> set ''Notification-Icon: ''" by simp
    show "headerLines (''Notification-Icon: '' @ getReference r (IconMode c)) ?name = []"
      by (rule headerLines_getReference [OF key dash np pr])
  qed
  have idl: "\<And>r. Icon options = Some r \<Longrightarrow> plain (Identifier r)"
    using icon by (simp add: plainResource_def)
  have num: "\<And>i. plain (Sprintf_d i)" by (simp add: plain_def Sprintf_d_plain)
  have step: "headerLines (packet (notifyPacket c notificationName title text options notificationID)) ?name =
      concat (map (\<lambda>l. headerLines l ?name)
        (notifyLines c notificationName title text options notificationID))"
    using headerLines_lines [OF ne] by (simp only: notifyPacket_lines)
  have f1: "\<And>key v. CHR 0x0D \<notin> set key \<Longrightarrow> plain v \<Longrightarrow> \<not> HasPrefix (key @ v) ?name \<Longrightarrow>
      headerLines (key @ v) ?name = []"
    by (simp add: headerLines_plain_field)
  have f2: "\<And>key. CHR 0x0D \<notin> set key \<Longrightarrow> \<not> HasPrefix key ?name \<Longrightarrow> headerLines key ?name = []"
    by (simp add: headerLines_literal)
  have h1: "headerLines (''GNTP/'' @ GNTPVersion @ '' NOTIFY NONE'') ?name = []"
    by (rule f2) (simp_all add: GNTPVersion_def HasPrefix_def)
  have h2: "headerLines (''Application-Name: '' @ ApplicationName c) ?name = []"
    by (rule f1) (simp_all add: assms HasPrefix_def)
  have h3: "headerLines (''Notification-Name: '' @ notificationName) ?name = []"
    by (rule f1) (simp_all add: assms HasPrefix_def)
  have h4: "headerLines (''Notification-ID: '' @ notificationID) ?name = []"
    by (rule f1) (simp_all add: assms HasPrefix_def)
  have h5: "headerLines (''Notification-Title: '' @ title) ?name = []"
    by (rule f1) (simp_all add: assms HasPrefix_def)
  have h6: "headerLines (''Notification-Text: '' @ text) ?name = []"
    by (rule f1) (simp_all add: assms HasPrefix_def)
  have h7: "headerLines ''Notification-Sticky: True'' ?name = []"
    by (simp add: headerLines_literal HasPrefix_def)
  have h8: "headerLines (''Notification-Priority: '' @ Sprintf_d (Priority options)) ?name =
      [''Notification-Priority: '' @ Sprintf_d (Priority options)]"
    using num [of "Priority options"]
      headerLines_plain_field [of "''Notification-Priority: ''" "Sprintf_d (Priority options)" ?name]
    by (simp add: HasPrefix_def)
  have h9: "headerLines (''Notification-Callback-Context: '' @ CallbackContext options) ?name = []"
    by (rule f1) (simp_all add: assms HasPrefix_def)
  have h10: "headerLines ''Notification-Callback-Context-Type: string'' ?name = []"
    by (rule f2) (simp_all add: HasPrefix_def)
  have h11: "headerLines (''Notification-Callback-Target: '' @ CallbackTarget options) ?name = []"
    by (rule f1) (simp_all add: assms HasPrefix_def)
  have h12: "headerLines [] ?name = []"
    by (rule headerLines_Nil) simp
  have h13: "\<And>r. Icon options = Some r \<Longrightarrow> headerLines (''Identifier: '' @ Identifier r) ?name = []"
    by (rule f1) (simp_all add: idl HasPrefix_def)
  have h14: "\<And>r. headerLines (''Length: '' @ Sprintf_d (int (length (Data r)))) ?name = []"
    by (rule f1) (simp_all add: num HasPrefix_def)
  note hs = h1 h2 h3 h4 h5 h6 h7 h8 h9 h10 h11 h12 h14
  note lists = map_append concat_append list.map concat.simps append_Nil2 append_Nil
    if_distrib [of "map _"] if_distrib [of concat]
  note ifs = if_distrib [of "\<lambda>x. x @ _"] if_distrib [of "\<lambda>x. _ @ x"] append_Nil append_Nil2
    if_cancel
  show ?thesis
  proof (cases "Icon options")
    case None
    show ?thesis
      apply (simp only: step notifyLines_def None option.case)
      apply (simp only: lists hs)
      apply (simp only: ifs cong: if_cong)
      done
  next
    case (Some r)
    show ?thesis
      apply (simp only: step notifyLines_def Some option.case)
      apply (simp only: lists hs ref [OF Some] h13 [OF Some])
      apply (simp only: ifs cong: if_cong)
      done
  qed
qed

text \<open>
  Claim C8, as amended. When the application name, the notification name, the
  notification identifier, the title, the text, the callback context and target and
  the icon's identifier, source path and MIME type hold no CRLF, the lines of the
  NOTIFY packet that start with \<open>Notification-Sticky\<close> are the one line
  \<open>Notification-Sticky: True\<close> when the sticky flag is true and none otherwise, and
  those that start with \<open>Notification-Priority\<close> are the one line with the priority
  when it is not zero and none otherwise; with the flag false and the priority zero
  the packet has neither line.
\<close>

theorem notify_sticky_priority:
  assumes "plain (ApplicationName c)" and "plain notificationName" and "plain notificationID"
    and "plain title" and "plain text"
    and "plain (CallbackContext options)" and "plain (CallbackTarget options)"
    and "\<forall>icon. Icon options = Some icon \<longrightarrow> plainResource icon"
  shows "headerLines (packet (notifyPacket c notificationName title text options notificationID))
           ''Notification-Sticky'' =
           (if Sticky options then [''Notification-Sticky: True''] else []) \<and>
         headerLines (packet (notifyPacket c notificationName title text options notificationID))
           ''Notification-Priority'' =
           (if Priority options \<noteq> 0
            then [''Notification-Priority: '' @ Sprintf_d (Priority options)] else []) \<and>
         (headerLines (packet (notifyPacket c notificationName title text options notificationID))
            ''Notification-Sticky'' \<noteq> []) = Sticky options \<and>
         (headerLines (packet (notifyPacket c notificationName title text options notificationID))
            ''Notification-Priority'' \<noteq> []) = (Priority options \<noteq> 0)"
  using notify_headerLines_Sticky [OF assms] notify_headerLines_Priority [OF assms]
  by simp

lemma plain_literals:
  "plain ''app''" "plain ''alert''" "plain ''Title''" "plain ''Message''" "plain []"
  "plain ''d41d8cd98f00b204e9800998ecf8427e''" "plain ''context''" "plain ''https://example.com''"
  "plain ''icon-1''" "plain ''image/png''"
  by (simp_all add: plain_def HasPrefix_def CRLF_def)

theorem notify_sticky_priority_witness:
  "headerLines (packet (notifyPacket (NewClient ''app'') ''alert'' ''Title'' ''Message''
       \<lparr>Sticky = True, Priority = 2,
        Icon = Some \<lparr>Identifier = ''icon-1'',
                      Data = ''Many hands make light work. Many hands make light work. 12'',
                      SourcePath = [], MimeType = ''image/png''\<rparr>,
        CallbackContext = ''context'', CallbackTarget = ''https://example.com''\<rparr>
       ''d41d8cd98f00b204e9800998ecf8427e'')) ''Notification-Sticky'' =
     [''Notification-Sticky: True''] \<and>
   headerLines (packet (notifyPacket (NewClient ''app'') ''alert'' ''Title'' ''Message''
       \<lparr>Sticky = True, Priority = 2,
        Icon = Some \<lparr>Identifier = ''icon-1'',
                      Data = ''Many hands make light work. Many hands make light work. 12'',
                      SourcePath = [], MimeType = ''image/png''\<rparr>,
        CallbackContext = ''context'', CallbackTarget = ''https://example.com''\<rparr>
       ''d41d8cd98f00b204e9800998ecf8427e'')) ''Notification-Priority'' =
     [''Notification-Priority: 2''] \<and>
   headerLines (packet (notifyPacket (NewClient ''app'') ''alert'' ''Title'' ''Message''
       NewNotifyOptions ''d41d8cd98f00b204e9800998ecf8427e'')) ''Notification-Sticky'' = [] \<and>
   headerLines (packet (notifyPacket (NewClient ''app'') ''alert'' ''Title'' ''Message''
       NewNotifyOptions ''d41d8cd98f00b204e9800998ecf8427e'')) ''Notification-Priority'' = []"
proof -
  have two: "Sprintf_d 2 = ''2''"
    by (simp add: Sprintf_d_def itoa_digit char_of_eq_iff take_bit_eq_mod)
  have app: "ApplicationName (NewClient ''app'') = ''app''" by (simp add: NewClient_def)
  show ?thesis
    using notify_sticky_priority [of "NewClient ''app''" "''alert''"
        "''d41d8cd98f00b204e9800998ecf8427e''" "''Title''" "''Message''"
        "\<lparr>Sticky = True, Priority = 2,
          Icon = Some \<lparr>Identifier = ''icon-1'',
                        Data = ''Many hands make light work. Many hands make light work. 12'',
                        SourcePath = [], MimeType = ''image/png''\<rparr>,
          CallbackContext = ''context'', CallbackTarget = ''https://example.com''\<rparr>"]
      notify_sticky_priority [of "NewClient ''app''" "''alert''"
        "''d41d8cd98f00b204e9800998ecf8427e''" "''Title''" "''Message''" NewNotifyOptions]
      plain_literals
    by (simp add: app two plainResource_def NewNotifyOptions_def)
qed


text \<open>
  The claim as stated fails: a title that holds a CRLF brings a line
  \<open>Notification-Sticky: True\<close> into a packet built with the sticky flag false.
\<close>

theorem notify_injected_sticky_counterexample:
  "Sticky NewNotifyOptions = False \<and>
   headerLines (packet (notifyPacket (NewClient ''app'') ''alert''
       (''x'' @ CRLF @ ''Notification-Sticky: True'') ''text'' NewNotifyOptions ''id''))
     ''Notification-Sticky'' = [''Notification-Sticky: True'']"
proof -
  let ?ls = "[''GNTP/1.0 NOTIFY NONE'', ''Application-Name: app'', ''Notification-Name: alert'',
              ''Notification-ID: id'', ''Notification-Title: x'', ''Notification-Sticky: True'',
              ''Notification-Text: text'', []]"
  have p: "packet (notifyPacket (NewClient ''app'') ''alert''
       (''x'' @ CRLF @ ''Notification-Sticky: True'') ''text'' NewNotifyOptions ''id'') =
       concat (map (\<lambda>l. l @ CRLF) ?ls)"
    by (simp add: notifyPacket_def binaryResources_def WriteString_def NewClient_def
        NewNotifyOptions_def GNTPVersion_def IconModeBinary_def IconModeDataURL_def)
  have "headerLines (concat (map (\<lambda>l. l @ CRLF) ?ls)) ''Notification-Sticky'' =
        concat (map (\<lambda>l. headerLines l ''Notification-Sticky'') ?ls)"
    by (rule headerLines_lines) simp
  also have "\<dots> = [''Notification-Sticky: True'']"
    by (simp add: headerLines_literal HasPrefix_def)
  finally show ?thesis
    unfolding p by (simp add: NewNotifyOptions_def)
qed

subsection \<open>Resources of REGISTER\<close>

text \<open>
  \<open>Register\<close> in terms of lines: the packet is the lines of the header block, of the
  notification types and of the resources kept, each followed by CRLF, and the resources
  kept are those the deduplication step lets through.
\<close>

lemma WriteString_sel:
  "packet (WriteString b s) = packet b @ s"
  "resources (WriteString b s) = resources b"
  "seenIDs (WriteString b s) = seenIDs b"
  by (simp_all add: WriteString_def)

lemma keep_packet: "packet (keep c b icon) = packet b"
  by (simp add: keep_def split: option.splits)

lemma keep_WriteString:
  "keep c (WriteString b s) icon = WriteString (keep c b icon) s"
  by (simp add: keep_def WriteString_def split: option.splits)

lemma registerNotification_keep:
  "registerNotification c b n =
   WriteString (keep c b (nt_Icon n)) (concat (map (\<lambda>l. l @ CRLF) (notificationLines c n)))"
proof (cases "nt_Icon n")
  case None
  show ?thesis
    by (cases "nt_DisplayName n = []"; cases "nt_Enabled n")
       (simp_all add: registerNotification_def notificationLines_def keep_def WriteString_def None)
next
  case (Some r)
  show ?thesis
    by (cases "nt_DisplayName n = []"; cases "nt_Enabled n";
        cases "IconMode c = IconModeBinary"; cases "seenIDs b (Identifier r)")
       (simp_all add: registerNotification_def notificationLines_def keep_def WriteString_def Some)
qed

lemma registerPreamble_keep:
  "registerPreamble c ns =
   WriteString (keep c \<lparr>packet = [], resources = [], seenIDs = (\<lambda>id. False)\<rparr> (ApplicationIcon c))
     (concat (map (\<lambda>l. l @ CRLF) (preambleLines c ns)))"
proof (cases "ApplicationIcon c")
  case None
  show ?thesis
    by (cases "callbackURL c = []")
       (simp_all add: registerPreamble_def preambleLines_def keep_def WriteString_def None)
next
  case (Some r)
  show ?thesis
    by (cases "callbackURL c = []"; cases "IconMode c = IconModeBinary")
       (simp_all add: registerPreamble_def preambleLines_def keep_def WriteString_def Some)
qed

lemma WriteString_twice: "WriteString (WriteString b s) t = WriteString b (s @ t)"
  by (simp add: WriteString_def)

lemma foldl_registerNotification:
  "foldl (registerNotification c) b ns =
   WriteString (foldl (keep c) b (map nt_Icon ns))
     (concat (map (\<lambda>l. l @ CRLF) (concat (map (notificationLines c) ns))))"
proof (induction ns arbitrary: b)
  case Nil
  show ?case by (simp add: WriteString_def)
next
  case (Cons n ns)
  have k: "\<And>b s icons. foldl (keep c) (WriteString b s) icons = WriteString (foldl (keep c) b icons) s"
  proof -
    fix b s icons
    show "foldl (keep c) (WriteString b s) icons = WriteString (foldl (keep c) b icons) s"
      by (induction icons arbitrary: b) (simp_all add: keep_WriteString)
  qed
  have "foldl (registerNotification c) b (n # ns) =
        foldl (registerNotification c) (registerNotification c b n) ns"
    by simp
  also have "\<dots> = WriteString (foldl (keep c) (registerNotification c b n) (map nt_Icon ns))
      (concat (map (\<lambda>l. l @ CRLF) (concat (map (notificationLines c) ns))))"
    by (rule Cons.IH)
  also have "\<dots> = WriteString (foldl (keep c) b (map nt_Icon (n # ns)))
      (concat (map (\<lambda>l. l @ CRLF) (concat (map (notificationLines c) (n # ns)))))"
    unfolding registerNotification_keep k WriteString_twice by simp
  finally show ?case .
qed

lemma foldl_resourceHeader:
  "foldl resourceHeader b rs =
   WriteString b (concat (map (\<lambda>l. l @ CRLF) (concat (map resourceLines rs))))"
proof (induction rs arbitrary: b)
  case Nil
  show ?case by (simp add: WriteString_def)
next
  case (Cons r rs)
  have "resourceHeader b r = WriteString b (concat (map (\<lambda>l. l @ CRLF) (resourceLines r)))"
    by (simp add: resourceHeader_def resourceLines_def WriteString_def)
  then show ?case by (simp add: Cons.IH WriteString_twice)
qed

lemma keep_seen_ok: "seen_ok b \<Longrightarrow> seen_ok (keep c b icon)"
  by (auto simp: seen_ok_def keep_def split: option.splits)

lemma keep_ids:
  "IconMode c = IconModeBinary \<Longrightarrow> seen_ok b \<Longrightarrow>
   Identifier ` set (resources (keep c b icon)) =
   Identifier ` set (resources b) \<union> Identifier ` set_option icon"
  by (auto simp: seen_ok_def keep_def split: option.splits)

lemma keep_subset: "set (resources (keep c b icon)) \<subseteq> set (resources b) \<union> set_option icon"
  by (auto simp: keep_def split: option.splits)

lemma foldl_keep:
  "IconMode c = IconModeBinary \<Longrightarrow> seen_ok b \<Longrightarrow>
   seen_ok (foldl (keep c) b icons) \<and>
   Identifier ` set (resources (foldl (keep c) b icons)) =
     Identifier ` set (resources b) \<union> Identifier ` (\<Union>icon \<in> set icons. set_option icon) \<and>
   set (resources (foldl (keep c) b icons)) \<subseteq>
     set (resources b) \<union> (\<Union>icon \<in> set icons. set_option icon)"
proof (induction icons arbitrary: b)
  case Nil
  then show ?case by simp
next
  case (Cons icon icons)
  have ok: "seen_ok (keep c b icon)" using Cons.prems by (simp add: keep_seen_ok)
  show ?case
    using Cons.IH [OF Cons.prems(1) ok] keep_ids [OF Cons.prems, of icon] keep_subset [of c b icon]
    by auto
qed

lemma foldl_keep_WriteString:
  "foldl (keep c) (WriteString b s) icons = WriteString (foldl (keep c) b icons) s"
  by (induction icons arbitrary: b) (simp_all add: keep_WriteString)

lemma foldl_keep_packet: "packet (foldl (keep c) b icons) = packet b"
  by (induction icons arbitrary: b) (simp_all add: keep_packet)

lemma registerPacket_binary:
  fixes c :: Client and ns :: "NotificationType list"
  assumes "IconMode c = IconModeBinary"
  defines "kept \<equiv> foldl (keep c) \<lparr>packet = [], resources = [], seenIDs = (\<lambda>id. False)\<rparr>
                     (ApplicationIcon c # map nt_Icon ns)"
  shows "registerPacket c ns =
         WriteString kept
           (concat (map (\<lambda>l. l @ CRLF)
              (preambleLines c ns @ concat (map (notificationLines c) ns) @
               concat (map resourceLines (resources kept)))))"
proof -
  let ?e = "\<lparr>packet = [], resources = [], seenIDs = (\<lambda>id. False)\<rparr>"
  let ?P = "concat (map (\<lambda>l. l @ CRLF) (preambleLines c ns))"
  let ?N = "concat (map (\<lambda>l. l @ CRLF) (concat (map (notificationLines c) ns)))"
  have k: "foldl (keep c) (keep c ?e (ApplicationIcon c)) (map nt_Icon ns) = kept"
    by (simp add: kept_def)
  have "foldl (registerNotification c) (registerPreamble c ns) ns =
        WriteString (foldl (keep c) (WriteString (keep c ?e (ApplicationIcon c)) ?P)
                       (map nt_Icon ns)) ?N"
    unfolding foldl_registerNotification registerPreamble_keep ..
  also have "\<dots> = WriteString kept (?P @ ?N)"
    unfolding foldl_keep_WriteString WriteString_twice k ..
  finally have f: "foldl (registerNotification c) (registerPreamble c ns) ns =
      WriteString kept (?P @ ?N)" .
  have r: "resources (WriteString kept (?P @ ?N)) = resources kept"
    by (simp add: WriteString_def)
  show ?thesis
    unfolding registerPacket_def f binaryResources_def
    using assms(1) by (simp add: r foldl_resourceHeader WriteString_twice)
qed

lemma seen_ok_empty: "seen_ok \<lparr>packet = [], resources = [], seenIDs = (\<lambda>id. False)\<rparr>"
  by (simp add: seen_ok_def)

lemma referencedIcons_set:
  "set (referencedIcons c ns) = (\<Union>icon \<in> set (ApplicationIcon c # map nt_Icon ns). set_option icon)"
  by (auto simp: referencedIcons_def split: option.splits)

lemma registerPacket_resources:
  assumes "IconMode c = IconModeBinary"
  shows "distinct (map Identifier (resources (registerPacket c ns)))"
    and "Identifier ` set (resources (registerPacket c ns)) = Identifier ` set (referencedIcons c ns)"
    and "set (resources (registerPacket c ns)) \<subseteq> set (referencedIcons c ns)"
proof -
  let ?e = "\<lparr>packet = [], resources = [], seenIDs = (\<lambda>id. False)\<rparr>"
  let ?kept = "foldl (keep c) ?e (ApplicationIcon c # map nt_Icon ns)"
  have r: "resources (registerPacket c ns) = resources ?kept"
    unfolding registerPacket_binary [OF assms] by (simp add: WriteString_def)
  note fk = foldl_keep [OF assms seen_ok_empty, of "ApplicationIcon c # map nt_Icon ns"]
  show "distinct (map Identifier (resources (registerPacket c ns)))"
    using fk unfolding r by (simp add: seen_ok_def)
  show "Identifier ` set (resources (registerPacket c ns)) = Identifier ` set (referencedIcons c ns)"
    using fk unfolding r referencedIcons_set by simp
  show "set (resources (registerPacket c ns)) \<subseteq> set (referencedIcons c ns)"
    using fk unfolding r referencedIcons_set by simp
qed

lemma HasPrefix_hd: "HasPrefix l name \<Longrightarrow> name \<noteq> [] \<Longrightarrow> l \<noteq> [] \<and> hd l = hd name"
  by (cases l; cases name) (auto simp: HasPrefix_def)

lemma other_line:
  assumes "name = ''Identifier:'' \<or> name = ''Length:''"
    and "CHR 0x0D \<notin> set key" and "plain v"
    and "key \<noteq> []" and "hd key \<noteq> CHR ''I''" and "hd key \<noteq> CHR ''L''"
  shows "headerLines (key @ v) name = []"
proof -
  have "\<not> HasPrefix (key @ v) name"
  proof
    assume "HasPrefix (key @ v) name"
    then have "hd (key @ v) = hd name" using assms(1) HasPrefix_hd by blast
    then show False using assms(1,4,5,6) by auto
  qed
  then show ?thesis using assms(2,3) by (simp add: headerLines_plain_field)
qed

lemma concat_map_concat:
  "(\<And>x. x \<in> set xs \<Longrightarrow> concat (map g (f x)) = h x) \<Longrightarrow>
   concat (map g (concat (map f xs))) = concat (map h xs)"
  by (induction xs) simp_all

lemma preamble_headerLines:
  assumes name: "name = ''Identifier:'' \<or> name = ''Length:''"
    and mode: "IconMode c = IconModeBinary"
    and "plain (ApplicationName c)" and "plain (callbackURL c)"
    and icon: "\<forall>r. ApplicationIcon c = Some r \<longrightarrow> plain (Identifier r)"
  shows "concat (map (\<lambda>l. headerLines l name) (preambleLines c ns)) = []"
proof -
  have ne: "name \<noteq> []" using name by auto
  have num: "\<And>i. plain (Sprintf_d i)" by (simp add: plain_def Sprintf_d_plain)
  have h1: "headerLines (''GNTP/'' @ GNTPVersion @ '' REGISTER NONE'') name = []"
    using other_line [OF name, of "''GNTP/'' @ GNTPVersion @ '' REGISTER NONE''" "[]"]
    by (simp add: GNTPVersion_def plain_def CRLF_def)
  have h2: "headerLines (''Application-Name: '' @ ApplicationName c) name = []"
    by (rule other_line [OF name]) (simp_all add: assms)
  have h3: "\<And>r. ApplicationIcon c = Some r \<Longrightarrow>
      headerLines (''Application-Icon: '' @ getReference r (IconMode c)) name = []"
  proof -
    fix r assume "ApplicationIcon c = Some r"
    then have p: "plain (Identifier r)" using icon by simp
    have "headerLines (''Application-Icon: x-growl-resource://'' @ Identifier r) name = []"
      by (rule other_line [OF name]) (simp_all add: p)
    then show "headerLines (''Application-Icon: '' @ getReference r (IconMode c)) name = []"
      by (simp add: getReference_def mode)
  qed
  have h4: "headerLines (''Notification-Callback-Target: '' @ callbackURL c) name = []"
    by (rule other_line [OF name]) (simp_all add: assms)
  have h5: "headerLines (''Notifications-Count: '' @ Sprintf_d (int (length ns))) name = []"
    by (rule other_line [OF name]) (simp_all add: num)
  have h6: "headerLines [] name = []" by (rule headerLines_Nil [OF ne])
  note hs = h1 h2 h4 h5 h6
  note lists = map_append concat_append list.map concat.simps append_Nil2 append_Nil
    if_distrib [of "map _"] if_distrib [of concat]
  show ?thesis
  proof (cases "ApplicationIcon c")
    case None
    show ?thesis
      apply (simp only: preambleLines_def None option.case)
      apply (simp only: lists hs)
      apply (simp only: if_cancel)
      done
  next
    case (Some r)
    show ?thesis
      apply (simp only: preambleLines_def Some option.case)
      apply (simp only: lists hs h3 [OF Some])
      apply (simp only: if_cancel)
      done
  qed
qed

lemma notification_headerLines:
  assumes name: "name = ''Identifier:'' \<or> name = ''Length:''"
    and mode: "IconMode c = IconModeBinary"
    and "plain (nt_Name n)" and "plain (nt_DisplayName n)"
    and icon: "\<forall>r. nt_Icon n = Some r \<longrightarrow> plain (Identifier r)"
  shows "concat (map (\<lambda>l. headerLines l name) (notificationLines c n)) = []"
proof -
  have ne: "name \<noteq> []" using name by auto
  have h1: "headerLines (''Notification-Name: '' @ nt_Name n) name = []"
    by (rule other_line [OF name]) (simp_all add: assms)
  have h2: "headerLines (''Notification-Display-Name: '' @ nt_DisplayName n) name = []"
    by (rule other_line [OF name]) (simp_all add: assms)
  have h3: "headerLines (''Notification-Enabled: '' @ (if nt_Enabled n then ''True'' else ''False'')) name = []"
    by (rule other_line [OF name]) (simp_all add: plain_def HasPrefix_def CRLF_def)
  have h4: "\<And>r. nt_Icon n = Some r \<Longrightarrow>
      headerLines (''Notification-Icon: '' @ getReference r (IconMode c)) name = []"
  proof -
    fix r assume "nt_Icon n = Some r"
    then have p: "plain (Identifier r)" using icon by simp
    have "headerLines (''Notification-Icon: x-growl-resource://'' @ Identifier r) name = []"
      by (rule other_line [OF name]) (simp_all add: p)
    then show "headerLines (''Notification-Icon: '' @ getReference r (IconMode c)) name = []"
      by (simp add: getReference_def mode)
  qed
  have h5: "headerLines [] name = []" by (rule headerLines_Nil [OF ne])
  note hs = h1 h2 h3 h5
  note lists = map_append concat_append list.map concat.simps append_Nil2 append_Nil
    if_distrib [of "map _"] if_distrib [of concat]
  show ?thesis
  proof (cases "nt_Icon n")
    case None
    show ?thesis
      apply (simp only: notificationLines_def None option.case)
      apply (simp only: lists hs)
      apply (simp only: if_cancel)
      done
  next
    case (Some r)
    show ?thesis
      apply (simp only: notificationLines_def Some option.case)
      apply (simp only: lists hs h4 [OF Some])
      apply (simp only: if_cancel)
      done
  qed
qed

lemma resource_headerLines:
  assumes "plain (Identifier r)"
  shows "concat (map (\<lambda>l. headerLines l ''Identifier:'') (resourceLines r)) =
           [''Identifier: '' @ Identifier r]"
    and "concat (map (\<lambda>l. headerLines l ''Length:'') (resourceLines r)) =
           [''Length: '' @ Sprintf_d (int (length (Data r)))]"
proof -
  have num: "\<And>i. plain (Sprintf_d i)" by (simp add: plain_def Sprintf_d_plain)
  have a: "headerLines (''Identifier: '' @ Identifier r) ''Identifier:'' = [''Identifier: '' @ Identifier r]"
    using headerLines_plain_field [of "''Identifier: ''" "Identifier r" "''Identifier:''"] assms
    by (simp add: HasPrefix_def)
  have b: "headerLines (''Length: '' @ Sprintf_d (int (length (Data r)))) ''Identifier:'' = []"
    using headerLines_plain_field [of "''Length: ''" "Sprintf_d (int (length (Data r)))" "''Identifier:''"] num
    by (simp add: HasPrefix_def)
  have c: "headerLines (''Identifier: '' @ Identifier r) ''Length:'' = []"
    using headerLines_plain_field [of "''Identifier: ''" "Identifier r" "''Length:''"] assms
    by (simp add: HasPrefix_def)
  have d: "headerLines (''Length: '' @ Sprintf_d (int (length (Data r)))) ''Length:'' =
      [''Length: '' @ Sprintf_d (int (length (Data r)))]"
    using headerLines_plain_field [of "''Length: ''" "Sprintf_d (int (length (Data r)))" "''Length:''"] num
    by (simp add: HasPrefix_def)
  have e: "headerLines [] ''Identifier:'' = []" "headerLines [] ''Length:'' = []"
    by (simp_all add: headerLines_Nil)
  show "concat (map (\<lambda>l. headerLines l ''Identifier:'') (resourceLines r)) =
           [''Identifier: '' @ Identifier r]"
    by (simp only: resourceLines_def list.map concat.simps a b e append_Nil2 append_Nil)
  show "concat (map (\<lambda>l. headerLines l ''Length:'') (resourceLines r)) =
           [''Length: '' @ Sprintf_d (int (length (Data r)))]"
    by (simp only: resourceLines_def list.map concat.simps c d e append_Nil2 append_Nil)
qed

lemma register_headerLines:
  assumes name: "name = ''Identifier:'' \<or> name = ''Length:''"
    and mode: "IconMode c = IconModeBinary"
    and app: "plain (ApplicationName c)" and url: "plain (callbackURL c)"
    and names: "\<forall>n \<in> set ns. plain (nt_Name n) \<and> plain (nt_DisplayName n)"
    and icons: "\<forall>r \<in> set (referencedIcons c ns). plain (Identifier r)"
  shows "headerLines (packet (registerPacket c ns)) name =
         concat (map (\<lambda>r. concat (map (\<lambda>l. headerLines l name) (resourceLines r)))
           (resources (registerPacket c ns)))"
proof -
  let ?e = "\<lparr>packet = [], resources = [], seenIDs = (\<lambda>id. False)\<rparr>"
  let ?kept = "foldl (keep c) ?e (ApplicationIcon c # map nt_Icon ns)"
  have ne: "name \<noteq> []" using name by auto
  have r: "resources (registerPacket c ns) = resources ?kept"
    unfolding registerPacket_binary [OF mode] by (simp add: WriteString_def)
  have p: "packet (registerPacket c ns) =
      concat (map (\<lambda>l. l @ CRLF)
        (preambleLines c ns @ concat (map (notificationLines c) ns) @
         concat (map resourceLines (resources ?kept))))"
    unfolding registerPacket_binary [OF mode]
    by (simp add: WriteString_def foldl_keep_packet keep_packet)
  have ai: "\<forall>r. ApplicationIcon c = Some r \<longrightarrow> plain (Identifier r)"
  proof (intro allI impI)
    fix r assume "ApplicationIcon c = Some r"
    then have "r \<in> set (referencedIcons c ns)" unfolding referencedIcons_set by force
    then show "plain (Identifier r)" using icons by blast
  qed
  have ni: "\<And>n. n \<in> set ns \<Longrightarrow> \<forall>r. nt_Icon n = Some r \<longrightarrow> plain (Identifier r)"
  proof (intro allI impI)
    fix n r assume "n \<in> set ns" "nt_Icon n = Some r"
    then have "r \<in> set (referencedIcons c ns)" unfolding referencedIcons_set by force
    then show "plain (Identifier r)" using icons by blast
  qed
  have A: "concat (map (\<lambda>l. headerLines l name) (preambleLines c ns)) = []"
    by (rule preamble_headerLines [OF name mode app url ai])
  have B: "concat (map (\<lambda>l. headerLines l name) (concat (map (notificationLines c) ns))) = []"
  proof -
    have "concat (map (\<lambda>l. headerLines l name) (concat (map (notificationLines c) ns))) =
          concat (map (\<lambda>n. []) ns)"
      using names ni by (intro concat_map_concat notification_headerLines [OF name mode]) auto
    then show ?thesis by simp
  qed
  have C: "concat (map (\<lambda>l. headerLines l name) (concat (map resourceLines (resources ?kept)))) =
      concat (map (\<lambda>r. concat (map (\<lambda>l. headerLines l name) (resourceLines r))) (resources ?kept))"
    by (rule concat_map_concat) simp
  show ?thesis
    unfolding p r headerLines_lines [OF ne]
    by (simp only: map_append concat_append A B C append_Nil)
qed

text \<open>
  Claim C2, as amended. In Binary icon mode, for every application icon and every list
  of notification types, the resources \<open>Register\<close> hands to the transport have
  pairwise different identifiers, every one of them is an icon the registration refers
  to, and their identifiers are exactly the identifiers of the icons referred to,
  however many notification types (or the application) refer to the same one. If the
  application name, the callback URL, the names and display names of the notification
  types and the icon identifiers hold no CRLF, the lines of the packet that start with
  \<open>Identifier:\<close> are exactly one per resource of that list, in its order, and so are
  the lines that start with \<open>Length:\<close>, each giving the length of that resource's
  data.
\<close>

theorem register_resources_once:
  assumes "IconMode c = IconModeBinary"
  shows "distinct (map Identifier (resources (registerPacket c ns))) \<and>
         Identifier ` set (resources (registerPacket c ns)) =
           Identifier ` set (referencedIcons c ns) \<and>
         set (resources (registerPacket c ns)) \<subseteq> set (referencedIcons c ns) \<and>
         (plain (ApplicationName c) \<and> plain (callbackURL c) \<and>
          (\<forall>n \<in> set ns. plain (nt_Name n) \<and> plain (nt_DisplayName n)) \<and>
          (\<forall>r \<in> set (referencedIcons c ns). plain (Identifier r)) \<longrightarrow>
            headerLines (packet (registerPacket c ns)) ''Identifier:'' =
              map (\<lambda>r. ''Identifier: '' @ Identifier r) (resources (registerPacket c ns)) \<and>
            headerLines (packet (registerPacket c ns)) ''Length:'' =
              map (\<lambda>r. ''Length: '' @ Sprintf_d (int (length (Data r))))
                (resources (registerPacket c ns)))"
proof -
  note res = registerPacket_resources [OF assms, of ns]
  have lines: "plain (ApplicationName c) \<and> plain (callbackURL c) \<and>
          (\<forall>n \<in> set ns. plain (nt_Name n) \<and> plain (nt_DisplayName n)) \<and>
          (\<forall>r \<in> set (referencedIcons c ns). plain (Identifier r)) \<longrightarrow>
            headerLines (packet (registerPacket c ns)) ''Identifier:'' =
              map (\<lambda>r. ''Identifier: '' @ Identifier r) (resources (registerPacket c ns)) \<and>
            headerLines (packet (registerPacket c ns)) ''Length:'' =
              map (\<lambda>r. ''Length: '' @ Sprintf_d (int (length (Data r))))
                (resources (registerPacket c ns))"
  proof (intro impI, elim conjE)
    assume app: "plain (ApplicationName c)" and url: "plain (callbackURL c)"
      and names: "\<forall>n \<in> set ns. plain (nt_Name n) \<and> plain (nt_DisplayName n)"
      and icons: "\<forall>r \<in> set (referencedIcons c ns). plain (Identifier r)"
    have pl: "\<And>r. r \<in> set (resources (registerPacket c ns)) \<Longrightarrow> plain (Identifier r)"
      using icons res(3) by blast
    have i: "headerLines (packet (registerPacket c ns)) ''Identifier:'' =
        concat (map (\<lambda>r. [''Identifier: '' @ Identifier r]) (resources (registerPacket c ns)))"
      unfolding register_headerLines [OF _ assms app url names icons, of "''Identifier:''", simplified]
      using pl by (intro arg_cong [of _ _ concat] map_cong refl resource_headerLines(1)) simp
    have l: "headerLines (packet (registerPacket c ns)) ''Length:'' =
        concat (map (\<lambda>r. [''Length: '' @ Sprintf_d (int (length (Data r)))])
          (resources (registerPacket c ns)))"
      unfolding register_headerLines [OF _ assms app url names icons, of "''Length:''", simplified]
      using pl by (intro arg_cong [of _ _ concat] map_cong refl resource_headerLines(2)) simp
    show "headerLines (packet (registerPacket c ns)) ''Identifier:'' =
              map (\<lambda>r. ''Identifier: '' @ Identifier r) (resources (registerPacket c ns)) \<and>
            headerLines (packet (registerPacket c ns)) ''Length:'' =
              map (\<lambda>r. ''Length: '' @ Sprintf_d (int (length (Data r))))
                (resources (registerPacket c ns))"
      using i l by simp
  qed
  show ?thesis using res lines by blast
qed

lemma small_numbers: "Sprintf_d 1 = ''1''" "Sprintf_d 2 = ''2''" "Sprintf_d 3 = ''3''"
  by (simp_all add: Sprintf_d_def itoa_digit char_of_eq_iff take_bit_eq_mod)

text \<open>
  An application icon \<open>A\<close> that the first notification type shares, and an icon
  \<open>B\<close> that the second and third share: two resources, two pairs of lines.
\<close>

theorem register_resources_once_witness:
  "resources (registerPacket
      ((NewClient ''app'')\<lparr>ApplicationIcon :=
          Some \<lparr>Identifier = ''A'', Data = ''abc'', SourcePath = [], MimeType = ''image/png''\<rparr>,
        IconMode := IconModeBinary\<rparr>)
      [\<lparr>nt_Name = ''one'', nt_DisplayName = ''One'', nt_Enabled = True,
        nt_Icon = Some \<lparr>Identifier = ''A'', Data = ''abc'', SourcePath = [], MimeType = ''image/png''\<rparr>\<rparr>,
       \<lparr>nt_Name = ''two'', nt_DisplayName = [], nt_Enabled = False,
        nt_Icon = Some \<lparr>Identifier = ''B'', Data = ''de'', SourcePath = [], MimeType = ''image/png''\<rparr>\<rparr>,
       \<lparr>nt_Name = ''three'', nt_DisplayName = [], nt_Enabled = True,
        nt_Icon = Some \<lparr>Identifier = ''B'', Data = ''de'', SourcePath = [], MimeType = ''image/png''\<rparr>\<rparr>]) =
     [\<lparr>Identifier = ''A'', Data = ''abc'', SourcePath = [], MimeType = ''image/png''\<rparr>,
      \<lparr>Identifier = ''B'', Data = ''de'', SourcePath = [], MimeType = ''image/png''\<rparr>] \<and>
   headerLines (packet (registerPacket
      ((NewClient ''app'')\<lparr>ApplicationIcon :=
          Some \<lparr>Identifier = ''A'', Data = ''abc'', SourcePath = [], MimeType = ''image/png''\<rparr>,
        IconMode := IconModeBinary\<rparr>)
      [\<lparr>nt_Name = ''one'', nt_DisplayName = ''One'', nt_Enabled = True,
        nt_Icon = Some \<lparr>Identifier = ''A'', Data = ''abc'', SourcePath = [], MimeType = ''image/png''\<rparr>\<rparr>,
       \<lparr>nt_Name = ''two'', nt_DisplayName = [], nt_Enabled = False,
        nt_Icon = Some \<lparr>Identifier = ''B'', Data = ''de'', SourcePath = [], MimeType = ''image/png''\<rparr>\<rparr>,
       \<lparr>nt_Name = ''three'', nt_DisplayName = [], nt_Enabled = True,
        nt_Icon = Some \<lparr>Identifier = ''B'', Data = ''de'', SourcePath = [], MimeType = ''image/png''\<rparr>\<rparr>]))
     ''Identifier:'' = [''Identifier: A'', ''Identifier: B''] \<and>
   headerLines (packet (registerPacket
      ((NewClient ''app'')\<lparr>ApplicationIcon :=
          Some \<lparr>Identifier = ''A'', Data = ''abc'', SourcePath = [], MimeType = ''image/png''\<rparr>,
        IconMode := IconModeBinary\<rparr>)
      [\<lparr>nt_Name = ''one'', nt_DisplayName = ''One'', nt_Enabled = True,
        nt_Icon = Some \<lparr>Identifier = ''A'', Data = ''abc'', SourcePath = [], MimeType = ''image/png''\<rparr>\<rparr>,
       \<lparr>nt_Name = ''two'', nt_DisplayName = [], nt_Enabled = False,
        nt_Icon = Some \<lparr>Identifier = ''B'', Data = ''de'', SourcePath = [], MimeType = ''image/png''\<rparr>\<rparr>,
       \<lparr>nt_Name = ''three'', nt_DisplayName = [], nt_Enabled = True,
        nt_Icon = Some \<lparr>Identifier = ''B'', Data = ''de'', SourcePath = [], MimeType = ''image/png''\<rparr>\<rparr>]))
     ''Length:'' = [''Length: 3'', ''Length: 2'']"
proof -
  let ?A = "\<lparr>Identifier = ''A'', Data = ''abc'', SourcePath = [], MimeType = ''image/png''\<rparr>"
  let ?B = "\<lparr>Identifier = ''B'', Data = ''de'', SourcePath = [], MimeType = ''image/png''\<rparr>"
  let ?c = "(NewClient ''app'')\<lparr>ApplicationIcon := Some ?A, IconMode := IconModeBinary\<rparr>"
  let ?ns = "[\<lparr>nt_Name = ''one'', nt_DisplayName = ''One'', nt_Enabled = True, nt_Icon = Some ?A\<rparr>,
       \<lparr>nt_Name = ''two'', nt_DisplayName = [], nt_Enabled = False, nt_Icon = Some ?B\<rparr>,
       \<lparr>nt_Name = ''three'', nt_DisplayName = [], nt_Enabled = True, nt_Icon = Some ?B\<rparr>]"
  have mode: "IconMode ?c = IconModeBinary" by simp
  have res: "resources (registerPacket ?c ?ns) = [?A, ?B]"
    unfolding registerPacket_binary [OF mode] by (simp add: WriteString_def keep_def)
  have pl: "plain ''app''" "plain []" "plain ''one''" "plain ''One''" "plain ''two''"
    "plain ''three''" "plain ''A''" "plain ''B''"
    by (simp_all add: plain_def HasPrefix_def CRLF_def)
  have hyp: "plain (ApplicationName ?c) \<and> plain (callbackURL ?c) \<and>
      (\<forall>n \<in> set ?ns. plain (nt_Name n) \<and> plain (nt_DisplayName n)) \<and>
      (\<forall>r \<in> set (referencedIcons ?c ?ns). plain (Identifier r))"
    using pl by (simp add: NewClient_def referencedIcons_def)
  show ?thesis
    using register_resources_once [OF mode, of ?ns] hyp
    unfolding res by (simp add: small_numbers)
qed

text \<open>
  Without the condition on CRLF the count of \<open>Identifier:\<close> lines fails: the name of a
  notification type is written as it is, so a name that holds a CRLF followed by
  \<open>Identifier: X\<close> gives the packet a second such line for the one resource \<open>X\<close>.
\<close>

theorem register_injected_identifier_counterexample:
  "map Identifier (resources (registerPacket ((NewClient ''app'')\<lparr>IconMode := IconModeBinary\<rparr>)
      [\<lparr>nt_Name = ''a'' @ CRLF @ ''Identifier: X'', nt_DisplayName = [], nt_Enabled = True,
        nt_Icon = Some \<lparr>Identifier = ''X'', Data = ''abc'', SourcePath = [],
                         MimeType = ''image/png''\<rparr>\<rparr>])) = [''X''] \<and>
   headerLines (packet (registerPacket ((NewClient ''app'')\<lparr>IconMode := IconModeBinary\<rparr>)
      [\<lparr>nt_Name = ''a'' @ CRLF @ ''Identifier: X'', nt_DisplayName = [], nt_Enabled = True,
        nt_Icon = Some \<lparr>Identifier = ''X'', Data = ''abc'', SourcePath = [],
                         MimeType = ''image/png''\<rparr>\<rparr>])) ''Identifier:'' =
     [''Identifier: X'', ''Identifier: X'']"
proof -
  let ?X = "\<lparr>Identifier = ''X'', Data = ''abc'', SourcePath = [], MimeType = ''image/png''\<rparr>"
  let ?c = "(NewClient ''app'')\<lparr>IconMode := IconModeBinary\<rparr>"
  let ?ns = "[\<lparr>nt_Name = ''a'' @ CRLF @ ''Identifier: X'', nt_DisplayName = [], nt_Enabled = True,
               nt_Icon = Some ?X\<rparr>]"
  let ?ls = "[''GNTP/1.0 REGISTER NONE'', ''Application-Name: app'', ''Notifications-Count: 1'', [],
              ''Notification-Name: a'', ''Identifier: X'', ''Notification-Enabled: True'',
              ''Notification-Icon: x-growl-resource://X'', [],
              ''Identifier: X'', ''Length: 3'', []]"
  have mode: "IconMode ?c = IconModeBinary" by simp
  have res: "resources (registerPacket ?c ?ns) = [?X]"
    unfolding registerPacket_binary [OF mode] by (simp add: WriteString_def keep_def NewClient_def)
  have p: "packet (registerPacket ?c ?ns) = concat (map (\<lambda>l. l @ CRLF) ?ls)"
    unfolding registerPacket_binary [OF mode]
    by (simp add: WriteString_def keep_def NewClient_def foldl_keep_packet keep_packet
        preambleLines_def notificationLines_def resourceLines_def getReference_def
        GNTPVersion_def small_numbers)
  have "headerLines (concat (map (\<lambda>l. l @ CRLF) ?ls)) ''Identifier:'' =
        concat (map (\<lambda>l. headerLines l ''Identifier:'') ?ls)"
    by (rule headerLines_lines) simp
  also have "\<dots> = [''Identifier: X'', ''Identifier: X'']"
    by (simp add: headerLines_literal HasPrefix_def)
  finally show ?thesis unfolding p res by simp
qed

end
